theory Spec2Isabelle
  imports Main
begin

section \<open>Engine results and threat dictionaries\<close>

text \<open>
  The scan engines of \<^verbatim>\<open>scanner/utils.py\<close> exchange Python dictionaries. A threat
  dictionary carries the keys \<^verbatim>\<open>name, threat_type, description, location,
  detection_engine, detection_rule, severity\<close>; YARA adds \<^verbatim>\<open>namespace, tags,
  string_matches\<close>. The code reads them with \<^verbatim>\<open>dict.get\<close>, so a key that may be absent
  is an \<open>option\<close> field: \<open>None\<close> is an absent key, which \<^verbatim>\<open>get\<close> turns into Python's
  \<^verbatim>\<open>None\<close>.
\<close>

record instance_dict =
  offset :: nat
  matched_data :: string
  matched_length :: nat

record string_match_dict =
  match_identifier :: string
  instances :: "instance_dict list"

record threat =
  name :: string
  threat_type :: string
  description :: string
  location :: string
  detection_engine :: string
  detection_rule :: string
  severity :: "string option"
  namespace :: "string option"
  tags :: "string list option"
  string_matches :: "string_match_dict list option"

text \<open>
  An engine result is a dictionary with the keys \<^verbatim>\<open>status\<close>, \<^verbatim>\<open>message\<close> and
  \<^verbatim>\<open>threats\<close>; \<^verbatim>\<open>scan_file\<close> starts from dictionaries without \<^verbatim>\<open>message\<close>.
\<close>

record engine_result =
  status :: "string option"
  message :: "string option"
  threats :: "threat list option"

text \<open>Exceptions are values: a class and the text \<^verbatim>\<open>str(e)\<close> gives.\<close>

datatype exn_class =
  AttributeError | TypeError | OSError | ImportError | DoesNotExist
  | YaraError | YaraTimeoutError | YaraSyntaxError | OtherException

datatype exn = Exn exn_class string

fun exn_str :: "exn \<Rightarrow> string" where
  "exn_str (Exn c s) = s"

fun exn_cls :: "exn \<Rightarrow> exn_class" where
  "exn_cls (Exn c s) = c"

text \<open>\<^verbatim>\<open>r.get('threats', [])\<close>\<close>

definition get_threats :: "engine_result \<Rightarrow> threat list" where
  "get_threats r = (case threats r of None \<Rightarrow> [] | Some ts \<Rightarrow> ts)"

text \<open>The keys of an engine result, in insertion order: what iterating the dictionary gives.\<close>

definition dict_keys :: "engine_result \<Rightarrow> string list" where
  "dict_keys r =
     (case status r of None \<Rightarrow> [] | Some _ \<Rightarrow> [''status'']) @
     (case message r of None \<Rightarrow> [] | Some _ \<Rightarrow> [''message'']) @
     (case threats r of None \<Rightarrow> [] | Some _ \<Rightarrow> [''threats''])"

section \<open>Threat level determination\<close>

text \<open>
  The third argument of \<^verbatim>\<open>determine_threat_level_with_virustotal\<close> is named
  \<^verbatim>\<open>virustotal_threats\<close> and is used as a list of threat dictionaries, which is what
  \<^verbatim>\<open>scan_with_virustotal\<close> returns. \<^verbatim>\<open>scan_file\<close> passes
  \<^verbatim>\<open>scan_results['virustotal']\<close>, which is a dictionary: the initial
  \<^verbatim>\<open>{'status': 'skipped', 'threats': []}\<close>, or the error dictionary of the task's
  VirusTotal block. Both shapes are values of \<open>vt_arg\<close>. On a dictionary, \<^verbatim>\<open>len\<close> counts the keys and
  iteration yields the keys, which are strings: \<^verbatim>\<open>threat.get\<close> on a string raises
  AttributeError.
\<close>

datatype vt_arg = VT_list "threat list" | VT_dict engine_result

fun vt_len :: "vt_arg \<Rightarrow> nat" where
  "vt_len (VT_list ts) = length ts"
| "vt_len (VT_dict r) = length (dict_keys r)"

definition is_high :: "threat \<Rightarrow> bool" where
  "is_high t = (severity t = Some ''high'')"

definition str_has_no_get :: exn where
  "str_has_no_get =
     Exn AttributeError ([CHR 0x27] @ ''str'' @ [CHR 0x27] @ '' object has no attribute ''
                         @ [CHR 0x27] @ ''get'' @ [CHR 0x27])"

text \<open>\<^verbatim>\<open>any(threat.get('severity') == 'high' for threat in virustotal_threats)\<close>\<close>

fun vt_any_high :: "vt_arg \<Rightarrow> exn + bool" where
  "vt_any_high (VT_list ts) = Inr (list_ex is_high ts)"
| "vt_any_high (VT_dict r) = (if dict_keys r = [] then Inr False else Inl str_has_no_get)"

text \<open>\<^verbatim>\<open>sum(1 for threat in virustotal_threats if threat.get('severity') == 'high')\<close>\<close>

fun vt_count_high :: "vt_arg \<Rightarrow> exn + nat" where
  "vt_count_high (VT_list ts) = Inr (length (filter is_high ts))"
| "vt_count_high (VT_dict r) = (if dict_keys r = [] then Inr 0 else Inl str_has_no_get)"

text \<open>\<^verbatim>\<open>scanner/tasks.py\<close>, \<^verbatim>\<open>determine_threat_level_with_virustotal\<close>.\<close>

definition determine_threat_level_with_virustotal ::
  "engine_result \<Rightarrow> engine_result \<Rightarrow> vt_arg \<Rightarrow> exn + string" where
  "determine_threat_level_with_virustotal clamav_result yara_result virustotal_threats =
     (let clamav_threats = length (get_threats clamav_result);
          yara_threats = length (get_threats yara_result);
          vt_threats = vt_len virustotal_threats
      in if status clamav_result = Some ''error'' \<and> status yara_result = Some ''error''
            \<and> vt_threats = 0
         then Inr ''unknown''
         else if status clamav_result = Some ''infected'' then Inr ''high''
         else case vt_any_high virustotal_threats of
           Inl e \<Rightarrow> Inl e
         | Inr True \<Rightarrow> Inr ''high''
         | Inr False \<Rightarrow>
            (let total_detections = clamav_threats + yara_threats + vt_threats
             in if total_detections \<ge> 3 then Inr ''high''
                else if total_detections \<ge> 1 then
                  (case vt_count_high virustotal_threats of
                     Inl e \<Rightarrow> Inl e
                   | Inr vt_high \<Rightarrow>
                      (let high_severity_count =
                             length (filter is_high (get_threats yara_result)) + vt_high
                       in if high_severity_count > 0 then Inr ''high''
                          else if total_detections \<ge> 2 then Inr ''medium''
                          else Inr ''low''))
                else Inr ''clean''))"

text \<open>\<^verbatim>\<open>scanner/utils.py\<close>, \<^verbatim>\<open>determine_threat_level\<close>, the two-engine variant.\<close>

definition determine_threat_level :: "engine_result \<Rightarrow> engine_result \<Rightarrow> string" where
  "determine_threat_level clamav_result yara_result =
     (let yara_threats = length (get_threats yara_result)
      in if status clamav_result = Some ''error'' \<and> status yara_result = Some ''error''
         then ''unknown''
         else if status clamav_result = Some ''infected'' then ''high''
         else if status yara_result = Some ''suspicious'' then
           (let high_severity_count = length (filter is_high (get_threats yara_result))
            in if high_severity_count > 0 then ''high''
               else if yara_threats \<ge> 3 then ''medium''
               else ''low'')
         else ''clean'')"

text \<open>
  The level \<^verbatim>\<open>scan_file\<close> stores: the call is inside a \<^verbatim>\<open>try\<close> whose handler sets
  \<^verbatim>\<open>'unknown'\<close>.
\<close>

definition task_threat_level :: "engine_result \<Rightarrow> engine_result \<Rightarrow> vt_arg \<Rightarrow> string" where
  "task_threat_level clamav_result yara_result virustotal_result =
     (case determine_threat_level_with_virustotal clamav_result yara_result virustotal_result of
        Inl threat_error \<Rightarrow> ''unknown''
      | Inr l \<Rightarrow> l)"

text \<open>
  The findings (threat entries) of the VirusTotal argument and of all engines together, as
  the claims count them.
\<close>

fun vt_findings :: "vt_arg \<Rightarrow> threat list" where
  "vt_findings (VT_list ts) = ts"
| "vt_findings (VT_dict r) = get_threats r"

definition total_findings :: "engine_result \<Rightarrow> engine_result \<Rightarrow> vt_arg \<Rightarrow> nat" where
  "total_findings c y v =
     length (get_threats c) + length (get_threats y) + length (vt_findings v)"

text \<open>The level the claims expect for a number of findings.\<close>

definition level_of_count :: "nat \<Rightarrow> string" where
  "level_of_count n =
     (if n = 0 then ''clean'' else if n = 1 then ''low'' else if n = 2 then ''medium''
      else ''high'')"

section \<open>The environment of a scan\<close>

text \<open>
  Everything outside the program is a field of \<open>env\<close>: the file system, the ClamAV
  daemon, the table of YARA rules and the database serving it, the YARA library, the
  VirusTotal client and the settings. An external call that can raise returns a sum,
  \<open>Inl\<close> the exception. Calls that are repeated take the number of the attempt, so that
  a transient failure can be followed by a success.
\<close>

record yara_rule =
  rule_name :: string
  rule_content :: string
  is_active :: bool

datatype compiled_rules = Compiled "(string \<times> string) list"

record string_match =
  sm_identifier :: string
  sm_instances :: "instance_dict list"

text \<open>
  A match object of the YARA library. Reading \<^verbatim>\<open>match.strings\<close> and the attributes
  of its elements depends on the version of the library, so it may raise.
\<close>

record yara_match =
  rule :: string
  match_namespace :: "string option"
  match_tags :: "string list"
  match_strings :: "exn + string_match list"

text \<open>
  \<open>path_exists\<close>, \<open>path_readable\<close> and \<open>path_getsize\<close> are \<^verbatim>\<open>os.path.exists\<close>,
  \<^verbatim>\<open>os.access(_, os.R_OK)\<close> and \<^verbatim>\<open>os.path.getsize\<close>. \<open>clamd_connect n\<close> is attempt
  \<open>n\<close> at building the \<^verbatim>\<open>pyclamd\<close> client and pinging the daemon: an exception, or
  the answer of the ping. \<open>clamd_scan_file\<close> is \<^verbatim>\<open>cd.scan_file\<close>: \<^verbatim>\<open>None\<close>, or the
  dictionary from a path to a pair of a tag and a signature name, as a list of triples.
  \<open>yara_rule_table\<close> is the table of \<^verbatim>\<open>YaraRule\<close>, \<open>yara_compile\<close> is
  \<^verbatim>\<open>yara.compile(sources=_)\<close>, \<open>yara_match_file\<close> is \<^verbatim>\<open>compiled_rules.match\<close>,
  \<open>yara_max_file_size\<close> and \<open>virustotal_enabled\<close> are the settings
  \<^verbatim>\<open>YARA_MAX_FILE_SIZE\<close> and \<^verbatim>\<open>VIRUSTOTAL_ENABLED\<close>, and
  \<open>scan_file_with_virustotal\<close> is the function of that name of
  \<^verbatim>\<open>scanner/virustotal_scanner.py\<close>.
\<close>

record env =
  path_exists :: "string \<Rightarrow> bool"
  path_readable :: "string \<Rightarrow> bool"
  path_getsize :: "string \<Rightarrow> exn + nat"
  clamd_connect :: "nat \<Rightarrow> exn + bool"
  clamd_scan_file :: "string \<Rightarrow> exn + (string \<times> string \<times> string) list option"
  yara_rule_table :: "yara_rule list"
  yara_db_error :: "nat \<Rightarrow> nat \<Rightarrow> exn option"
  yara_compile :: "nat \<Rightarrow> (string \<times> string) list \<Rightarrow> exn + compiled_rules"
  yara_match_file :: "compiled_rules \<Rightarrow> string \<Rightarrow> exn + yara_match list"
  yara_max_file_size :: nat
  virustotal_enabled :: bool
  scan_file_with_virustotal :: "string \<Rightarrow> exn + engine_result"

section \<open>Strings\<close>

text \<open>Decimal text of a number, as an f-string prints it.\<close>

definition digit_char :: "nat \<Rightarrow> char" where
  "digit_char d = ''0123456789'' ! d"

function str_of_nat :: "nat \<Rightarrow> string" where
  "str_of_nat n =
     (if n < 10 then [digit_char n]
      else str_of_nat (n div 10) @ [digit_char (n mod 10)])"
  by pat_completeness auto
termination
  by (relation "measure id") auto

declare str_of_nat.simps [simp del]

text \<open>\<^verbatim>\<open>str.lower\<close> on ASCII text.\<close>

definition lower_char :: "char \<Rightarrow> char" where
  "lower_char c =
     (let n = (of_char c :: nat) in if 65 \<le> n \<and> n \<le> 90 then char_of (n + 32) else c)"

definition lower :: "string \<Rightarrow> string" where
  "lower s = map lower_char s"

text \<open>The ASCII characters \<^verbatim>\<open>str.strip\<close> removes.\<close>

definition is_space :: "char \<Rightarrow> bool" where
  "is_space c =
     (let n = (of_char c :: nat) in (9 \<le> n \<and> n \<le> 13) \<or> (28 \<le> n \<and> n \<le> 32))"

text \<open>\<^verbatim>\<open>sub in s\<close>\<close>

fun contains :: "string \<Rightarrow> string \<Rightarrow> bool" where
  "contains sub [] = (sub = [])"
| "contains sub (c # cs) = (take (length sub) (c # cs) = sub \<or> contains sub cs)"

section \<open>ClamAV\<close>

definition max_retries :: nat where
  "max_retries = 3"

definition error_result :: "string \<Rightarrow> engine_result" where
  "error_result msg = \<lparr>status = Some ''error'', message = Some msg, threats = Some []\<rparr>"

text \<open>
  The connection loop of \<^verbatim>\<open>scan_with_clamav\<close>: \<open>Some r\<close> is the early
  \<^verbatim>\<open>return r\<close> of the last failed attempt, \<open>None\<close> is leaving the loop (by
  \<^verbatim>\<open>break\<close> or by exhausting the range; a ping that answers false is only logged).
\<close>

fun clamav_connect_loop :: "env \<Rightarrow> nat list \<Rightarrow> engine_result option" where
  "clamav_connect_loop env [] = None"
| "clamav_connect_loop env (attempt # rest) =
     (case clamd_connect env attempt of
        Inr True \<Rightarrow> None
      | Inr False \<Rightarrow> clamav_connect_loop env rest
      | Inl conn_error \<Rightarrow>
          if attempt < max_retries - 1 then clamav_connect_loop env rest
          else Some (error_result (''ClamAV daemon not available after '' @ str_of_nat max_retries
                       @ '' attempts: '' @ exn_str conn_error)))"

text \<open>One entry of the dictionary that \<^verbatim>\<open>cd.scan_file\<close> returns, made a threat.\<close>

definition clamav_threat :: "string \<Rightarrow> string \<Rightarrow> threat" where
  "clamav_threat file_path_result virus =
     \<lparr>name = virus, threat_type = ''malware'',
      description = ''ClamAV detected: '' @ virus,
      location = file_path_result, detection_engine = ''ClamAV'',
      detection_rule = virus, severity = Some ''high'',
      namespace = None, tags = None, string_matches = None\<rparr>"

fun parse_clamav_result :: "(string \<times> string \<times> string) list \<Rightarrow> threat list" where
  "parse_clamav_result [] = []"
| "parse_clamav_result ((file_path_result, tag, virus) # rest) =
     (if tag = ''FOUND'' then clamav_threat file_path_result virus # parse_clamav_result rest
      else parse_clamav_result rest)"

text \<open>The body of the \<^verbatim>\<open>try\<close> block of \<^verbatim>\<open>scan_with_clamav\<close>.\<close>

definition scan_with_clamav_body :: "env \<Rightarrow> string \<Rightarrow> exn + engine_result" where
  "scan_with_clamav_body env file_path =
     (case clamav_connect_loop env [0..<max_retries] of
        Some r \<Rightarrow> Inr r
      | None \<Rightarrow>
          if \<not> path_exists env file_path then Inr (error_result (''File not found: '' @ file_path))
          else if \<not> path_readable env file_path
            then Inr (error_result (''File not readable: '' @ file_path))
          else (case clamd_scan_file env file_path of
            Inl e \<Rightarrow> Inl e
          | Inr None \<Rightarrow>
              Inr \<lparr>status = Some ''clean'', message = Some ''No threats detected by ClamAV'',
                   threats = Some []\<rparr>
          | Inr (Some result) \<Rightarrow>
              (let found = parse_clamav_result result
               in Inr \<lparr>status = Some (if found \<noteq> [] then ''infected'' else ''clean''),
                       message = Some (''ClamAV scan completed. Found ''
                                        @ str_of_nat (length found) @ '' threats.''),
                       threats = Some found\<rparr>)))"

text \<open>\<^verbatim>\<open>scan_with_clamav\<close>: the body, and the handler of \<^verbatim>\<open>except Exception\<close>.\<close>

definition scan_with_clamav :: "env \<Rightarrow> string \<Rightarrow> exn + engine_result" where
  "scan_with_clamav env file_path =
     (case scan_with_clamav_body env file_path of
        Inr r \<Rightarrow> Inr r
      | Inl e \<Rightarrow> Inr (error_result (''ClamAV scan failed: '' @ exn_str e)))"

section \<open>YARA\<close>

text \<open>
  \<^verbatim>\<open>compile_yara_rules\<close>. The query for the active rules is tried up to three times;
  \<open>yara_db_error env call attempt\<close> is the database error of that attempt, if any
  (3 and 4 stand for the later \<^verbatim>\<open>exists()\<close> query and for the query that iterates
  over the rules). Leaving a loop whose range is
  exhausted would leave \<^verbatim>\<open>active_rules\<close> unbound; every exception of the function ends
  in \<^verbatim>\<open>return None\<close>, so \<open>None\<close> stands for all of them.
\<close>

fun fetch_active_rules :: "env \<Rightarrow> nat \<Rightarrow> nat list \<Rightarrow> yara_rule list option" where
  "fetch_active_rules env call [] = None"
| "fetch_active_rules env call (attempt # rest) =
     (case yara_db_error env call attempt of
        None \<Rightarrow> Some (filter is_active (yara_rule_table env))
      | Some db_error \<Rightarrow>
          if attempt < max_retries - 1 then fetch_active_rules env call rest else None)"

text \<open>
  The loop that fills \<^verbatim>\<open>rules_dict\<close>: a rule whose content is empty or blank, or does
  not contain \<^verbatim>\<open>'rule '\<close>, is skipped. Rule names are unique in the table, so the
  dictionary is the list of pairs in order.
\<close>

fun collect_rules :: "yara_rule list \<Rightarrow> (string \<times> string) list" where
  "collect_rules [] = []"
| "collect_rules (r # rest) =
     (if rule_content r = [] \<or> list_all is_space (rule_content r) then collect_rules rest
      else if \<not> contains ''rule '' (rule_content r) then collect_rules rest
      else (rule_name r, rule_content r) # collect_rules rest)"

definition compile_yara_rules :: "env \<Rightarrow> nat \<Rightarrow> compiled_rules option" where
  "compile_yara_rules env call =
     (case fetch_active_rules env call [0..<max_retries] of
        None \<Rightarrow> None
      | Some active_rules \<Rightarrow>
          (case yara_db_error env call 3 of
             Some e \<Rightarrow> None
           | None \<Rightarrow>
               if active_rules = [] then None
               else (case yara_db_error env call 4 of
                       Some e \<Rightarrow> None
                     | None \<Rightarrow>
                        (let rules_dict = collect_rules active_rules
                         in if rules_dict = [] then None
                            else (case yara_compile env call rules_dict of
                                    Inl e \<Rightarrow> None
                                  | Inr compiled \<Rightarrow> Some compiled)))))"

text \<open>
  The compilation loop of \<^verbatim>\<open>scan_with_yara\<close>. \<^verbatim>\<open>compile_yara_rules\<close> never
  raises, so the \<^verbatim>\<open>except\<close> branch of the loop (and its early return) is never
  taken: an attempt either yields rules and breaks, or yields \<^verbatim>\<open>None\<close> and the loop
  goes on.
\<close>

fun yara_compile_loop :: "env \<Rightarrow> nat list \<Rightarrow> compiled_rules option" where
  "yara_compile_loop env [] = None"
| "yara_compile_loop env (attempt # rest) =
     (case compile_yara_rules env attempt of
        Some compiled \<Rightarrow> Some compiled
      | None \<Rightarrow> yara_compile_loop env rest)"

definition tag_severity :: "string list \<Rightarrow> string" where
  "tag_severity ts =
     (if list_ex (\<lambda>tag. lower tag \<in> set [''critical'', ''high'', ''malware'', ''trojan'', ''virus'']) ts
        then ''high''
      else if list_ex (\<lambda>tag. lower tag \<in> set [''low'', ''info'', ''suspicious'']) ts
        then ''low''
      else ''medium'')"

definition string_match_entry :: "string_match \<Rightarrow> string_match_dict" where
  "string_match_entry sm =
     \<lparr>match_identifier = sm_identifier sm,
      instances = map (\<lambda>i. i\<lparr>matched_data := take 100 (matched_data i)\<rparr>)
                      (take 5 (sm_instances sm))\<rparr>"

text \<open>One match made a threat; \<open>Inl\<close> is the exception the loop logs and skips.\<close>

definition yara_threat :: "string \<Rightarrow> yara_match \<Rightarrow> exn + threat" where
  "yara_threat file_path m =
     (case match_strings m of
        Inl e \<Rightarrow> Inl e
      | Inr strs \<Rightarrow>
          Inr \<lparr>name = rule m, threat_type = ''pattern_match'',
               description = ''YARA rule match: '' @ rule m,
               location = file_path, detection_engine = ''YARA'',
               detection_rule = rule m,
               severity = Some (tag_severity (match_tags m)),
               namespace = Some (case match_namespace m of None \<Rightarrow> ''default'' | Some ns \<Rightarrow> ns),
               tags = Some (match_tags m),
               string_matches = Some (map string_match_entry strs)\<rparr>)"

fun process_matches :: "string \<Rightarrow> yara_match list \<Rightarrow> threat list" where
  "process_matches file_path [] = []"
| "process_matches file_path (m # rest) =
     (case yara_threat file_path m of
        Inl match_error \<Rightarrow> process_matches file_path rest
      | Inr t \<Rightarrow> t # process_matches file_path rest)"

text \<open>
  The body of the \<^verbatim>\<open>try\<close> block of \<^verbatim>\<open>scan_with_yara\<close>. An \<^verbatim>\<open>OSError\<close>
  of \<^verbatim>\<open>getsize\<close> is logged and the scan goes on; any other exception of it leaves the
  body. The loop that calls \<^verbatim>\<open>Threat.objects.create\<close> for each threat passes the keywords
  \<^verbatim>\<open>file_path\<close> and \<^verbatim>\<open>metadata\<close>, which are no fields of the model, so each call
  raises and is caught inside the loop: it stores nothing and changes no result.
\<close>

definition scan_with_yara_body :: "env \<Rightarrow> string \<Rightarrow> exn + engine_result" where
  "scan_with_yara_body env file_path =
     (case yara_compile_loop env [0..<max_retries] of
        None \<Rightarrow>
          Inr \<lparr>status = Some ''clean'', message = Some ''No YARA rules available for scanning'',
               threats = Some []\<rparr>
      | Some compiled \<Rightarrow>
          if \<not> path_exists env file_path then Inr (error_result (''File not found: '' @ file_path))
          else if \<not> path_readable env file_path
            then Inr (error_result (''File not readable: '' @ file_path))
          else (case (case path_getsize env file_path of
                        Inr file_size \<Rightarrow>
                          if file_size > yara_max_file_size env
                          then Inr (Some \<lparr>status = Some ''skipped'',
                                 message = Some (''File too large for YARA scan: ''
                                                  @ str_of_nat file_size @ '' bytes''),
                                 threats = Some []\<rparr>)
                          else Inr None
                      | Inl size_error \<Rightarrow>
                          if exn_cls size_error = OSError then Inr None else Inl size_error) of
                  Inl e \<Rightarrow> Inl e
                | Inr (Some skipped) \<Rightarrow> Inr skipped
                | Inr None \<Rightarrow>
                   (case yara_match_file env compiled file_path of
                      Inl e \<Rightarrow>
                        if exn_cls e = YaraTimeoutError then Inr (error_result ''YARA scan timeout'')
                        else if exn_cls e = YaraError \<or> exn_cls e = YaraSyntaxError
                          then Inr (error_result (''YARA scan error: '' @ exn_str e))
                        else Inl e
                    | Inr matches \<Rightarrow>
                       (let found = process_matches file_path matches
                        in Inr \<lparr>status = Some (if found \<noteq> [] then ''infected'' else ''clean''),
                                message = Some (''YARA scan completed. Found ''
                                                 @ str_of_nat (length found) @ '' threats.''),
                                threats = Some found\<rparr>))))"

definition scan_with_yara :: "env \<Rightarrow> string \<Rightarrow> exn + engine_result" where
  "scan_with_yara env file_path =
     (case scan_with_yara_body env file_path of
        Inr r \<Rightarrow> Inr r
      | Inl e \<Rightarrow> Inr (error_result (''YARA scan failed: '' @ exn_str e)))"

section \<open>VirusTotal\<close>

text \<open>
  \<^verbatim>\<open>scan_with_virustotal\<close> returns a list of threats, empty on every failure:
  \<^verbatim>\<open>result['status']\<close> raises KeyError when the key is absent, and the handler
  returns \<^verbatim>\<open>[]\<close>.
\<close>

definition scan_with_virustotal :: "env \<Rightarrow> string \<Rightarrow> threat list" where
  "scan_with_virustotal env file_path =
     (case scan_file_with_virustotal env file_path of
        Inl e \<Rightarrow> []
      | Inr result \<Rightarrow>
          (case status result of
             None \<Rightarrow> []
           | Some s \<Rightarrow>
               if s = ''error'' then []
               else if s = ''pending'' then []
               else get_threats result))"

section \<open>Scan results, threats and the scan task\<close>

text \<open>
  A row of \<^verbatim>\<open>ScanResult\<close> (\<^verbatim>\<open>scanner/models.py\<close>), with the columns the task and
  the signal handler touch. Both \<^verbatim>\<open>status\<close> and \<^verbatim>\<open>threat_level\<close> are character
  fields with choices; saving a row does not check the choices, so they are strings. The
  status column is \<open>sr_status\<close> here, since \<open>status\<close> is the key of an engine result.
  \<^verbatim>\<open>storage_path\<close> is nullable.
\<close>

record scan_row =
  sr_status :: string
  threat_level :: string
  storage_path :: "string option"

text \<open>
  The Python object the task works on: the row, and the attributes the task sets on it
  that are no columns of the model (\<^verbatim>\<open>error_message\<close>, \<^verbatim>\<open>threats_found\<close>);
  \<^verbatim>\<open>save()\<close> writes the row only.
\<close>

record scan_instance =
  row :: scan_row
  error_message :: "string option"
  threats_found :: "nat option"

text \<open>A row of \<^verbatim>\<open>ScanThreat\<close>: the scan it belongs to, its name and its severity.\<close>

record scan_threat =
  scan_result_id :: string
  threat_name :: string
  threat_severity :: string

text \<open>
  What the task does to the world, in order: the rows it saves, the status updates it
  publishes and the engines it calls.
\<close>

datatype event =
  Saved string scan_row
  | StatusUpdate string string string
  | EngineCall string

record state =
  db :: "string \<rightharpoonup> scan_row"
  scan_threats :: "scan_threat list"
  log :: "event list"

definition ScanStatus_choices :: "string list" where
  "ScanStatus_choices = [''pending'', ''scanning'', ''completed'', ''failed'']"

definition ThreatLevel_choices :: "string list" where
  "ThreatLevel_choices = [''clean'', ''low'', ''medium'', ''high'', ''critical'']"

text \<open>\<^verbatim>\<open>ScanResult.objects.create(..., status=ScanStatus.PENDING)\<close> of the upload view.\<close>

definition create_scan_result :: "string \<Rightarrow> string option \<Rightarrow> state \<Rightarrow> state" where
  "create_scan_result scan_id path st =
     st\<lparr>db := (db st)(scan_id \<mapsto>
            \<lparr>sr_status = ''pending'', threat_level = ''clean'', storage_path = path\<rparr>)\<rparr>"

text \<open>
  \<^verbatim>\<open>scan_result.save()\<close>. The database is taken to work. The receiver of the
  \<^verbatim>\<open>post_save\<close> signal of \<^verbatim>\<open>ScanResult\<close> (\<^verbatim>\<open>notify_scan_completion\<close>) sends
  mail and notifications and changes no row of a scan.
\<close>

definition save :: "string \<Rightarrow> scan_instance \<Rightarrow> state \<Rightarrow> state" where
  "save scan_id inst st =
     st\<lparr>db := (db st)(scan_id \<mapsto> row inst),
        log := log st @ [Saved scan_id (row inst)]\<rparr>"

text \<open>\<^verbatim>\<open>send_scan_status_update\<close> catches every exception of its own and returns.\<close>

definition send_scan_status_update :: "string \<Rightarrow> string \<Rightarrow> string \<Rightarrow> state \<Rightarrow> state" where
  "send_scan_status_update scan_id st_name msg st =
     st\<lparr>log := log st @ [StatusUpdate scan_id st_name msg]\<rparr>"

definition max_db_retries :: nat where
  "max_db_retries = 3"

text \<open>
  The lookup loop of \<^verbatim>\<open>scan_file\<close>. A loop left with \<^verbatim>\<open>scan_result\<close> still
  \<^verbatim>\<open>None\<close> would fail at the next attribute assignment. The ids are the texts of
  UUIDs, which is what the upload view passes to the task; the lookup of a text that is
  no UUID (it raises a validation error, not \<^verbatim>\<open>DoesNotExist\<close>) is outside the model.
\<close>

fun db_get_loop :: "(string \<rightharpoonup> scan_row) \<Rightarrow> string \<Rightarrow> nat list \<Rightarrow> exn + scan_row" where
  "db_get_loop d scan_id [] =
     Inl (Exn AttributeError ([CHR 0x27] @ ''NoneType'' @ [CHR 0x27] @ '' object has no attribute ''
                              @ [CHR 0x27] @ ''status'' @ [CHR 0x27]))"
| "db_get_loop d scan_id (attempt # rest) =
     (case d scan_id of
        Some r \<Rightarrow> Inr r
      | None \<Rightarrow>
          if attempt = max_db_retries - 1
          then Inl (Exn DoesNotExist ''ScanResult matching query does not exist.'')
          else db_get_loop d scan_id rest)"

text \<open>The two early exits of the task: mark the scan failed, save, publish, return.\<close>

definition fail_scan :: "string \<Rightarrow> scan_instance \<Rightarrow> string \<Rightarrow> state \<Rightarrow> state \<times> scan_instance" where
  "fail_scan scan_id inst error_msg st =
     (let inst' = inst\<lparr>row := (row inst)\<lparr>sr_status := ''failed''\<rparr>,
                      error_message := Some error_msg\<rparr>
      in (send_scan_status_update scan_id ''failed'' error_msg (save scan_id inst' st), inst'))"

text \<open>
  One engine block of the task: the result of the engine, or the error dictionary of the
  block's \<^verbatim>\<open>except\<close>. The block reads \<^verbatim>\<open>result['status']\<close>, and
  \<^verbatim>\<open>result['message']\<close> when the status is \<^verbatim>\<open>'error'\<close>; a missing key raises KeyError
  inside the block.
\<close>

text \<open>\<^verbatim>\<open>str(KeyError(key))\<close>: the key between single quotes.\<close>

definition key_error :: "string \<Rightarrow> string" where
  "key_error k = [CHR 0x27] @ k @ [CHR 0x27]"

definition engine_block :: "string \<Rightarrow> exn + engine_result \<Rightarrow> engine_result" where
  "engine_block label res =
     (case res of
        Inl e \<Rightarrow> error_result (label @ '' scan failed: '' @ exn_str e)
      | Inr r \<Rightarrow>
          (case status r of
             None \<Rightarrow> error_result (label @ '' scan failed: '' @ key_error ''status'')
           | Some s \<Rightarrow>
               if s = ''error'' \<and> message r = None
               then error_result (label @ '' scan failed: '' @ key_error ''message'')
               else r))"

text \<open>
  The VirusTotal block. When enabled it stores the list \<^verbatim>\<open>scan_with_virustotal\<close>
  returns and then logs \<^verbatim>\<open>virustotal_result['status']\<close>: indexing a list with a string
  raises TypeError, and the \<^verbatim>\<open>except\<close> of the block replaces the stored list by an
  error dictionary. When disabled the initial dictionary stays.
\<close>

definition virustotal_block :: "env \<Rightarrow> string \<Rightarrow> engine_result" where
  "virustotal_block env file_path =
     (if virustotal_enabled env
      then (case scan_with_virustotal env file_path of
              virustotal_result \<Rightarrow>
                error_result (''VirusTotal scan failed: ''
                               @ ''list indices must be integers or slices, not str''))
      else \<lparr>status = Some ''skipped'', message = None, threats = Some []\<rparr>)"

definition engine_calls :: "env \<Rightarrow> event list" where
  "engine_calls env =
     [EngineCall ''clamav'', EngineCall ''yara'']
     @ (if virustotal_enabled env then [EngineCall ''virustotal''] else [])"

text \<open>
  The \<^verbatim>\<open>try\<close> block of \<^verbatim>\<open>scan_file\<close>. The result is the state, the instance the
  task holds, and \<open>Inl\<close> the exception that leaves the block. \<^verbatim>\<open>os.path.exists(None)\<close>
  raises TypeError.
\<close>

definition scan_file_body ::
  "env \<Rightarrow> string \<Rightarrow> state \<Rightarrow> state \<times> scan_instance option \<times> (exn + unit)" where
  "scan_file_body env scan_id st =
     (case db_get_loop (db st) scan_id [0..<max_db_retries] of
        Inl e \<Rightarrow> (st, None, Inl e)
      | Inr r \<Rightarrow>
         (let inst0 = \<lparr>row = r\<lparr>sr_status := ''running''\<rparr>, error_message = None,
                       threats_found = None\<rparr>;
              st1 = send_scan_status_update scan_id ''running'' ''Scan in progress...''
                      (save scan_id inst0 st)
          in case storage_path r of
               None \<Rightarrow>
                 (st1, Some inst0,
                  Inl (Exn TypeError ''stat: path should be string, bytes, os.PathLike or integer, not NoneType''))
             | Some file_path \<Rightarrow>
                 if \<not> path_exists env file_path then
                   (case fail_scan scan_id inst0 (''File not found: '' @ file_path) st1 of
                      (st2, inst2) \<Rightarrow> (st2, Some inst2, Inr ()))
                 else if \<not> path_readable env file_path then
                   (case fail_scan scan_id inst0 (''File not readable: '' @ file_path) st1 of
                      (st2, inst2) \<Rightarrow> (st2, Some inst2, Inr ()))
                 else
                   (let clamav_result = engine_block ''ClamAV'' (scan_with_clamav env file_path);
                        yara_result = engine_block ''YARA'' (scan_with_yara env file_path);
                        virustotal_result = virustotal_block env file_path;
                        st2 = st1\<lparr>log := log st1 @ engine_calls env\<rparr>;
                        level = task_threat_level clamav_result yara_result
                                  (VT_dict virustotal_result);
                        all_threats = get_threats clamav_result @ get_threats yara_result
                                        @ get_threats virustotal_result;
                        inst3 = \<lparr>row = (row inst0)\<lparr>sr_status := ''completed'',
                                                          threat_level := level\<rparr>,
                                 error_message = None,
                                 threats_found = Some (length all_threats)\<rparr>;
                        st3 = send_scan_status_update scan_id ''completed''
                                (''Scan completed: '' @ level @ '' threat level'')
                                (save scan_id inst3 st2)
                    in (st3, Some inst3, Inr ()))))"

datatype outcome = Returned | Retry nat exn | Raised exn

definition task_max_retries :: nat where
  "task_max_retries = 3"

text \<open>
  \<^verbatim>\<open>scan_file\<close>, with its two handlers; \<open>retries\<close> is \<^verbatim>\<open>self.request.retries\<close>.
  The general handler looks the row up again, marks it failed, publishes the failure and
  asks for a retry with a countdown of \<open>60 * 2 ^ retries\<close> seconds while retries remain.
\<close>

definition scan_file ::
  "env \<Rightarrow> nat \<Rightarrow> string \<Rightarrow> state \<Rightarrow> state \<times> scan_instance option \<times> outcome" where
  "scan_file env retries scan_id st =
     (case scan_file_body env scan_id st of
        (st', inst, Inr u) \<Rightarrow> (st', inst, Returned)
      | (st', inst, Inl e) \<Rightarrow>
          if exn_cls e = DoesNotExist then
            (send_scan_status_update scan_id ''failed''
               (''Scan result with ID '' @ scan_id @ '' not found'') st', inst, Returned)
          else
            (let error_msg = ''Scan task failed: '' @ exn_str e;
                 upd = (case db st' scan_id of
                          None \<Rightarrow> (st', inst)
                        | Some r \<Rightarrow>
                            (let i = \<lparr>row = r\<lparr>sr_status := ''failed''\<rparr>,
                                      error_message = Some error_msg, threats_found = None\<rparr>
                             in (save scan_id i st', Some i)))
             in (send_scan_status_update scan_id ''failed'' error_msg (fst upd), snd upd,
                 if retries < task_max_retries then Retry (60 * 2 ^ retries) e else Raised e)))"

section \<open>The threat level signal\<close>

text \<open>
  \<^verbatim>\<open>update_scan_result_threat_level\<close> (\<^verbatim>\<open>scanner/signals.py\<close>): the chain of
  \<^verbatim>\<open>if\<close> and \<^verbatim>\<open>elif\<close>, from the severities of all threats of the scan and the level
  the handler reads. \<open>Some l\<close> is the branch that assigns \<open>l\<close> and saves; \<open>None\<close> is no
  branch, and nothing is saved.
\<close>

definition escalate :: "string list \<Rightarrow> string \<Rightarrow> string option" where
  "escalate severities level =
     (if ''critical'' \<in> set severities \<and> level \<noteq> ''critical'' then Some ''critical''
      else if ''high'' \<in> set severities \<and> level \<notin> set [''critical'', ''high'']
        then Some ''high''
      else if ''medium'' \<in> set severities \<and> level \<notin> set [''critical'', ''high'', ''medium'']
        then Some ''medium''
      else if level = ''clean'' then Some ''low''
      else None)"

text \<open>
  The \<^verbatim>\<open>ScanThreat\<close> object the signal passes: its row, and the related object
  \<^verbatim>\<open>instance.scan_result\<close>. When the threat was created with \<^verbatim>\<open>scan_result=obj\<close>,
  that is the Python object \<open>obj\<close> as the caller holds it, whose \<^verbatim>\<open>threat_level\<close> may
  differ from the stored one; when it was created with the id only, it is \<open>None\<close> here and
  reading the attribute loads the row.
\<close>

record threat_instance =
  threat_row :: scan_threat
  scan_result :: "scan_row option"

text \<open>
  \<^verbatim>\<open>scan_result.save(update_fields=['threat_level'])\<close>: an update of that one column of
  the stored row.
\<close>

definition save_threat_level :: "string \<Rightarrow> string \<Rightarrow> state \<Rightarrow> state" where
  "save_threat_level scan_id level st =
     (case db st scan_id of
        None \<Rightarrow> st
      | Some r \<Rightarrow> st\<lparr>db := (db st)(scan_id \<mapsto> r\<lparr>threat_level := level\<rparr>)\<rparr>)"

text \<open>
  The handler reads the current level from the related object, not from the stored row,
  and saves the level it assigned to that object.
\<close>

definition update_scan_result_threat_level :: "threat_instance \<Rightarrow> bool \<Rightarrow> state \<Rightarrow> state" where
  "update_scan_result_threat_level inst created st =
     (if created then
        (let scan_id = scan_result_id (threat_row inst)
         in case (case scan_result inst of
                    Some obj \<Rightarrow> Some obj
                  | None \<Rightarrow> db st scan_id) of
              None \<Rightarrow> st
            | Some obj \<Rightarrow>
                (let ts = filter (\<lambda>t. scan_result_id t = scan_id) (scan_threats st);
                     severities = map threat_severity ts
                 in case escalate severities (threat_level obj) of
                      None \<Rightarrow> st
                    | Some level \<Rightarrow> save_threat_level scan_id level st))
      else st)"

text \<open>
  Creating a \<^verbatim>\<open>ScanThreat\<close> row fires the \<^verbatim>\<open>post_save\<close> signal with
  \<^verbatim>\<open>created=True\<close>. The foreign key refuses a row for a scan that does not exist.
\<close>

definition create_scan_threat :: "threat_instance \<Rightarrow> state \<Rightarrow> state" where
  "create_scan_threat inst st =
     (case db st (scan_result_id (threat_row inst)) of
        None \<Rightarrow> st
      | Some r \<Rightarrow>
          update_scan_result_threat_level inst True
            (st\<lparr>scan_threats := scan_threats st @ [threat_row inst]\<rparr>))"

text \<open>The order of the threat levels; a string outside the choices has no rank.\<close>

definition level_rank :: "string \<Rightarrow> nat option" where
  "level_rank l =
     (if l = ''clean'' then Some 0
      else if l = ''low'' then Some 1
      else if l = ''medium'' then Some 2
      else if l = ''high'' then Some 3
      else if l = ''critical'' then Some 4
      else None)"

text \<open>The operations on a scan: a threat row is added, or the scan task runs.\<close>

datatype scan_op = AddThreat threat_instance | RunScan env nat string

fun apply_op :: "scan_op \<Rightarrow> state \<Rightarrow> state" where
  "apply_op (AddThreat inst) st = create_scan_threat inst st"
| "apply_op (RunScan env retries scan_id) st = fst (scan_file env retries scan_id st)"

fun run_ops :: "scan_op list \<Rightarrow> state \<Rightarrow> state" where
  "run_ops [] st = st"
| "run_ops (x # xs) st = run_ops xs (apply_op x st)"

definition level_of :: "state \<Rightarrow> string \<Rightarrow> string option" where
  "level_of st scan_id = map_option threat_level (db st scan_id)"

section \<open>The exception handler\<close>

text \<open>
  \<^verbatim>\<open>trojan_defender/exceptions.py\<close>. The application's exceptions all derive from
  \<^verbatim>\<open>TrojanDefenderException\<close>, and none of them from another of them;
  \<^verbatim>\<open>IntegrityError\<close> derives from \<^verbatim>\<open>DatabaseError\<close>.
\<close>

datatype json = JNull | JString string | JObject "(string \<times> json) list" | JList "json list"

datatype exception_class =
  TrojanDefenderException | ScannerException | ThreatIntelligenceException
  | AuthenticationException | ValidationException | RateLimitException
  | FileUploadException | ExternalAPIException
  | DjangoValidationError | IntegrityError | DatabaseError | Http404 | OtherError

definition application_classes :: "exception_class list" where
  "application_classes =
     [TrojanDefenderException, ScannerException, ThreatIntelligenceException,
      AuthenticationException, ValidationException, RateLimitException,
      FileUploadException, ExternalAPIException]"

definition isinstance :: "exception_class \<Rightarrow> exception_class \<Rightarrow> bool" where
  "isinstance c d =
     (c = d
      \<or> (d = TrojanDefenderException \<and> c \<in> set application_classes)
      \<or> (d = DatabaseError \<and> c = IntegrityError))"

text \<open>
  A raised exception: its class, the attributes \<^verbatim>\<open>TrojanDefenderException.__init__\<close>
  sets, and for the framework's exceptions \<^verbatim>\<open>exc.messages\<close> and \<^verbatim>\<open>str(exc)\<close>.
\<close>

record raised =
  exc_class :: exception_class
  exc_message :: string
  error_code :: "string option"
  details :: json
  exc_messages :: "string list"
  exc_str :: string

definition falsy :: "json \<Rightarrow> bool" where
  "falsy j = (j = JNull \<or> j = JString [] \<or> j = JObject [] \<or> j = JList [])"

text \<open>\<^verbatim>\<open>TrojanDefenderException.__init__(message, error_code=None, details=None)\<close>\<close>

definition init_exception ::
  "exception_class \<Rightarrow> string \<Rightarrow> string option \<Rightarrow> json \<Rightarrow> raised" where
  "init_exception c msg code dets =
     \<lparr>exc_class = c, exc_message = msg, error_code = code,
      details = (if falsy dets then JObject [] else dets),
      exc_messages = [], exc_str = msg\<rparr>"

record response =
  status_code :: nat
  data :: json

definition error_body :: "(string \<times> json) list \<Rightarrow> json" where
  "error_body entries = JObject [(''error'', JObject entries)]"

definition json_of_option :: "string option \<Rightarrow> json" where
  "json_of_option x = (case x of None \<Rightarrow> JNull | Some s \<Rightarrow> JString s)"

text \<open>
  The value under \<^verbatim>\<open>timestamp\<close>:
  \<^verbatim>\<open>logger.handlers[0].formatter.formatTime(...) if logger.handlers else None\<close>. The list
  is \<^verbatim>\<open>logger.handlers\<close> of the module's logger, each handler given by what its
  formatter prints for the time, and by \<open>None\<close> when the handler has no formatter: then
  \<^verbatim>\<open>formatter\<close> is Python's \<^verbatim>\<open>None\<close> and the call raises AttributeError.
\<close>

definition format_timestamp :: "string option list \<Rightarrow> exn + string option" where
  "format_timestamp handlers =
     (case handlers of
        [] \<Rightarrow> Inr None
      | h # rest \<Rightarrow>
          (case h of
             None \<Rightarrow> Inl (Exn AttributeError
                          ([CHR 0x27] @ ''NoneType'' @ [CHR 0x27] @ '' object has no attribute ''
                           @ [CHR 0x27] @ ''formatTime'' @ [CHR 0x27]))
           | Some ts \<Rightarrow> Inr (Some ts)))"

text \<open>The logger has no handler, or its first handler has a formatter.\<close>

definition formatter_ready :: "string option list \<Rightarrow> bool" where
  "formatter_ready handlers = (case handlers of [] \<Rightarrow> True | h # rest \<Rightarrow> h \<noteq> None)"

text \<open>
  \<^verbatim>\<open>custom_exception_handler\<close>; \<open>Inl\<close> is an exception that leaves the handler.
  \<open>handlers\<close> is the list above. \<open>drf\<close> is the response of the framework's own
  \<^verbatim>\<open>exception_handler\<close>, with its data already rewritten by the last branch of the
  function (\<^verbatim>\<open>get_error_message\<close>, \<^verbatim>\<open>get_error_code\<close>), and \<open>None\<close> when the
  framework does not handle the exception. Logging has no result.
\<close>

definition custom_exception_handler ::
  "raised \<Rightarrow> string option list \<Rightarrow> response option \<Rightarrow> exn + response option" where
  "custom_exception_handler exc handlers drf =
     (if isinstance (exc_class exc) TrojanDefenderException then
        (case format_timestamp handlers of
           Inl e \<Rightarrow> Inl e
         | Inr timestamp \<Rightarrow>
            (let custom_response_data = error_body
                   [(''message'', JString (exc_message exc)),
                    (''code'', JString (case error_code exc of
                                          None \<Rightarrow> ''UNKNOWN_ERROR''
                                        | Some c \<Rightarrow> if c = [] then ''UNKNOWN_ERROR'' else c)),
                    (''details'', details exc),
                    (''timestamp'', json_of_option timestamp)];
                 code =
                   (if isinstance (exc_class exc) ValidationException then 400
                    else if isinstance (exc_class exc) AuthenticationException then 401
                    else if isinstance (exc_class exc) RateLimitException then 429
                    else if isinstance (exc_class exc) FileUploadException then 413
                    else if isinstance (exc_class exc) ExternalAPIException then 502
                    else 500)
             in Inr (Some \<lparr>status_code = code, data = custom_response_data\<rparr>)))
      else if isinstance (exc_class exc) DjangoValidationError then
        Inr (Some \<lparr>status_code = 400,
              data = error_body
                [(''message'', JString ''Validation error''),
                 (''code'', JString ''VALIDATION_ERROR''),
                 (''details'', JObject [(''validation_errors'',
                                          JList (map JString (exc_messages exc)))])]\<rparr>)
      else if isinstance (exc_class exc) IntegrityError then
        Inr (Some \<lparr>status_code = 400,
              data = error_body
                [(''message'', JString ''Database integrity error''),
                 (''code'', JString ''INTEGRITY_ERROR''),
                 (''details'', JObject [(''database_error'', JString (exc_str exc))])]\<rparr>)
      else if isinstance (exc_class exc) DatabaseError then
        Inr (Some \<lparr>status_code = 500,
              data = error_body
                [(''message'', JString ''Database error occurred''),
                 (''code'', JString ''DATABASE_ERROR''),
                 (''details'', JObject [])]\<rparr>)
      else if isinstance (exc_class exc) Http404 then
        Inr (Some \<lparr>status_code = 404,
              data = error_body
                [(''message'', JString ''Resource not found''),
                 (''code'', JString ''NOT_FOUND''),
                 (''details'', JObject [])]\<rparr>)
      else Inr drf)"

text \<open>The keys of the object under \<^verbatim>\<open>error\<close> of a response body.\<close>

fun error_keys :: "json \<Rightarrow> string list option" where
  "error_keys (JObject [(k, JObject entries)]) =
     (if k = ''error'' then Some (map fst entries) else None)"
| "error_keys j = None"

section \<open>Concrete scans\<close>

text \<open>
  An environment in which everything works, the file is there, ClamAV finds the EICAR
  test signature in it, no YARA rule is active and VirusTotal is disabled.
\<close>

definition eicar_env :: env where
  "eicar_env =
     \<lparr>path_exists = (\<lambda>p. True), path_readable = (\<lambda>p. True),
      path_getsize = (\<lambda>p. Inr 68),
      clamd_connect = (\<lambda>n. Inr True),
      clamd_scan_file = (\<lambda>p. Inr (Some [(p, ''FOUND'', ''Eicar-Test-Signature'')])),
      yara_rule_table = [],
      yara_db_error = (\<lambda>c a. None),
      yara_compile = (\<lambda>c d. Inr (Compiled d)),
      yara_match_file = (\<lambda>c p. Inr []),
      yara_max_file_size = 104857600,
      virustotal_enabled = False,
      scan_file_with_virustotal = (\<lambda>p. Inl (Exn OtherException ''no API key''))\<rparr>"

text \<open>The same, but ClamAV finds nothing and one active YARA rule without tags matches.\<close>

definition yara_hit_env :: env where
  "yara_hit_env =
     eicar_env\<lparr>clamd_scan_file := (\<lambda>p. Inr None),
       yara_rule_table :=
         [\<lparr>rule_name = ''packed'', rule_content = ''rule packed { condition: true }'',
           is_active = True\<rparr>],
       yara_match_file := (\<lambda>c p. Inr [\<lparr>rule = ''packed'', match_namespace = Some ''packed'',
                                         match_tags = [], match_strings = Inr []\<rparr>])\<rparr>"

text \<open>The same as the first, but the stored file is gone.\<close>

definition missing_env :: env where
  "missing_env = eicar_env\<lparr>path_exists := (\<lambda>p. False)\<rparr>"

text \<open>The ClamAV daemon cannot be reached.\<close>

definition down_env :: env where
  "down_env = eicar_env\<lparr>clamd_connect := (\<lambda>n. Inl (Exn OtherException ''Connection refused''))\<rparr>"

text \<open>The id of a scan: the text of a UUID, as the task receives it.\<close>

definition scan_1 :: string where
  "scan_1 = ''0b6f3c1e-7a52-4d8e-9f10-2c4a6e8b1d37''"

definition empty_state :: state where
  "empty_state = \<lparr>db = Map.empty, scan_threats = [], log = []\<rparr>"

text \<open>One uploaded file, not scanned yet.\<close>

definition uploaded_state :: state where
  "uploaded_state = create_scan_result scan_1 (Some ''/media/eicar.com'') empty_state"

definition clean_result :: engine_result where
  "clean_result = \<lparr>status = Some ''clean'', message = Some ''No threats detected by ClamAV'',
                    threats = Some []\<rparr>"

definition no_rules_result :: engine_result where
  "no_rules_result =
     \<lparr>status = Some ''clean'', message = Some ''No YARA rules available for scanning'',
      threats = Some []\<rparr>"

definition skipped_result :: engine_result where
  "skipped_result = \<lparr>status = Some ''skipped'', message = None, threats = Some []\<rparr>"

text \<open>The results the engines give in these environments.\<close>

definition eicar_result :: engine_result where
  "eicar_result =
     \<lparr>status = Some ''infected'',
      message = Some ''ClamAV scan completed. Found 1 threats.'',
      threats = Some [clamav_threat ''/media/eicar.com'' ''Eicar-Test-Signature'']\<rparr>"

definition packed_threat :: threat where
  "packed_threat =
     \<lparr>name = ''packed'', threat_type = ''pattern_match'',
      description = ''YARA rule match: packed'',
      location = ''/media/eicar.com'', detection_engine = ''YARA'',
      detection_rule = ''packed'', severity = Some ''medium'',
      namespace = Some ''packed'', tags = Some [], string_matches = Some []\<rparr>"

definition yara_hit_result :: engine_result where
  "yara_hit_result =
     \<lparr>status = Some ''infected'',
      message = Some ''YARA scan completed. Found 1 threats.'',
      threats = Some [packed_threat]\<rparr>"

text \<open>A YARA result whose one match carries the tag \<^verbatim>\<open>malware\<close>.\<close>

definition yara_high_result :: engine_result where
  "yara_high_result =
     \<lparr>status = Some ''infected'',
      message = Some ''YARA scan completed. Found 1 threats.'',
      threats = Some [packed_threat\<lparr>severity := Some ''high'', tags := Some [''malware'']\<rparr>]\<rparr>"

text \<open>
  A result as the callers of the engines expect it: the three keys are there, and the
  list of threats is empty when the status is \<^verbatim>\<open>'error'\<close>, \<^verbatim>\<open>'clean'\<close> or
  \<^verbatim>\<open>'skipped'\<close>.
\<close>

definition engine_result_ok :: "engine_result \<Rightarrow> bool" where
  "engine_result_ok r =
     (status r \<noteq> None \<and> message r \<noteq> None \<and> threats r \<noteq> None
      \<and> (status r \<in> set [Some ''error'', Some ''clean'', Some ''skipped'']
           \<longrightarrow> threats r = Some []))"

fun is_engine_call :: "event \<Rightarrow> bool" where
  "is_engine_call (EngineCall e) = True"
| "is_engine_call (Saved scan_id r) = False"
| "is_engine_call (StatusUpdate scan_id s m) = False"

text \<open>
  A threat of severity \<^verbatim>\<open>'critical'\<close> recorded for the uploaded file, created with
  the id of the scan.
\<close>

definition critical_threat :: threat_instance where
  "critical_threat =
     \<lparr>threat_row = \<lparr>scan_result_id = scan_1, threat_name = ''Ransom.Test'',
                    threat_severity = ''critical''\<rparr>,
      scan_result = None\<rparr>"

text \<open>
  The object of the uploaded scan as the upload view holds it, and a threat of severity
  \<^verbatim>\<open>'low'\<close> created with that object as its \<^verbatim>\<open>scan_result\<close>.
\<close>

definition uploaded_row :: scan_row where
  "uploaded_row = \<lparr>sr_status = ''pending'', threat_level = ''clean'',
                    storage_path = Some ''/media/eicar.com''\<rparr>"

definition low_threat :: threat_instance where
  "low_threat =
     \<lparr>threat_row = \<lparr>scan_result_id = scan_1, threat_name = ''Adware.Test'',
                    threat_severity = ''low''\<rparr>,
      scan_result = Some uploaded_row\<rparr>"

section \<open>Evaluation lemmas\<close>

lemma upt_max_retries: "[0..<max_retries] = [0, 1, 2]"
  by (simp add: max_retries_def upt_rec)

lemma upt_max_db_retries: "[0..<max_db_retries] = [0, 1, 2]"
  by (simp add: max_db_retries_def upt_rec)

lemma scan_with_clamav_eicar: "scan_with_clamav eicar_env ''/media/eicar.com'' = Inr eicar_result"
  by (simp add: scan_with_clamav_def scan_with_clamav_body_def eicar_env_def upt_max_retries
      str_of_nat.simps digit_char_def eicar_result_def)

lemma scan_with_yara_eicar: "scan_with_yara eicar_env p = Inr no_rules_result"
  by (simp add: scan_with_yara_def scan_with_yara_body_def compile_yara_rules_def
      eicar_env_def upt_max_retries no_rules_result_def)

lemma clamav_connect_loop_down:
  "clamav_connect_loop down_env [0..<max_retries] =
     Some (error_result ''ClamAV daemon not available after 3 attempts: Connection refused'')"
  by (simp only: upt_max_retries)
    (simp add: down_env_def eicar_env_def max_retries_def str_of_nat.simps digit_char_def)

lemma scan_with_clamav_down:
  "scan_with_clamav down_env p =
     Inr (error_result ''ClamAV daemon not available after 3 attempts: Connection refused'')"
  by (simp add: scan_with_clamav_def scan_with_clamav_body_def clamav_connect_loop_down)

lemma level_of_count_cases:
  "(if 3 \<le> n then Inr ''high''
    else if 1 \<le> n then (if 2 \<le> n then Inr ''medium'' else Inr ''low'')
    else Inr ''clean'') = (Inr (level_of_count n) :: exn + string)"
  by (simp add: level_of_count_def)

lemma ok_error_result: "engine_result_ok (error_result m)"
  by (simp add: engine_result_ok_def error_result_def)

lemma ok_empty:
  "s \<noteq> None \<Longrightarrow> engine_result_ok \<lparr>status = s, message = Some m, threats = Some []\<rparr>"
  by (simp add: engine_result_ok_def)

lemma ok_found:
  "engine_result_ok \<lparr>status = Some (if found \<noteq> [] then ''infected'' else ''clean''),
                      message = Some m, threats = Some found\<rparr>"
  by (simp add: engine_result_ok_def)

lemma clamav_connect_loop_error:
  "clamav_connect_loop env xs = Some r \<Longrightarrow> \<exists>m. r = error_result m"
proof (induction xs)
  case Nil
  then show ?case by simp
next
  case (Cons attempt rest)
  show ?case
  proof (cases "clamd_connect env attempt")
    case (Inl e)
    with Cons show ?thesis by (cases "attempt < max_retries - 1") auto
  next
    case (Inr b)
    with Cons show ?thesis by (cases b) auto
  qed
qed

lemma scan_with_clamav_body_ok:
  assumes "scan_with_clamav_body env p = Inr c"
  shows "engine_result_ok c \<and> (get_threats c \<noteq> [] \<longrightarrow> status c = Some ''infected'')"
proof (cases "clamav_connect_loop env [0..<max_retries]")
  case (Some r)
  then obtain m where "r = error_result m"
    using clamav_connect_loop_error by blast
  with Some assms have "c = error_result m"
    by (simp add: scan_with_clamav_body_def)
  then show ?thesis
    by (simp add: ok_error_result) (simp add: error_result_def get_threats_def)
next
  case None
  note loop = None
  show ?thesis
  proof (cases "path_exists env p \<and> path_readable env p")
    case False
    with loop assms have "\<exists>m. c = error_result m"
      by (auto simp: scan_with_clamav_body_def split: if_splits)
    then obtain m where "c = error_result m" by blast
    then show ?thesis
      by (simp add: ok_error_result) (simp add: error_result_def get_threats_def)
  next
    case True
    show ?thesis
    proof (cases "clamd_scan_file env p")
      case (Inl e)
      with loop True assms show ?thesis by (simp add: scan_with_clamav_body_def)
    next
      case (Inr res)
      show ?thesis
      proof (cases res)
        case None
        with Inr loop True assms show ?thesis
          by (auto simp: scan_with_clamav_body_def engine_result_ok_def get_threats_def)
      next
        case (Some result)
        with Inr loop True assms
        have "c = \<lparr>status = Some (if parse_clamav_result result \<noteq> [] then ''infected'' else ''clean''),
                message = Some (''ClamAV scan completed. Found ''
                                 @ str_of_nat (length (parse_clamav_result result)) @ '' threats.''),
                threats = Some (parse_clamav_result result)\<rparr>"
          by (simp add: scan_with_clamav_body_def Let_def)
        then show ?thesis
          by (simp add: engine_result_ok_def get_threats_def)
      qed
    qed
  qed
qed


lemma fetch_active_rules_eq:
  "fetch_active_rules env call xs = Some rs \<Longrightarrow> rs = filter is_active (yara_rule_table env)"
  by (induction xs) (auto split: option.splits if_splits)

lemma compile_yara_rules_no_active:
  assumes "filter is_active (yara_rule_table env) = []"
  shows "compile_yara_rules env call = None"
proof (cases "fetch_active_rules env call [0..<max_retries]")
  case None
  then show ?thesis by (simp add: compile_yara_rules_def)
next
  case (Some rs)
  then have "rs = []" using fetch_active_rules_eq assms by fastforce
  with Some show ?thesis by (simp add: compile_yara_rules_def split: option.splits)
qed

lemma yara_compile_loop_no_active:
  "filter is_active (yara_rule_table env) = [] \<Longrightarrow> yara_compile_loop env xs = None"
  by (induction xs) (simp_all add: compile_yara_rules_no_active)

lemma scan_with_yara_body_ok:
  assumes "scan_with_yara_body env p = Inr c"
  shows "engine_result_ok c"
proof (cases "yara_compile_loop env [0..<max_retries]")
  case None
  with assms show ?thesis
    by (auto simp: scan_with_yara_body_def engine_result_ok_def)
next
  case (Some compiled)
  note loop = Some
  show ?thesis
  proof (cases "path_exists env p \<and> path_readable env p")
    case False
    with loop assms have "\<exists>m. c = error_result m"
      by (auto simp: scan_with_yara_body_def split: if_splits)
    then show ?thesis by (auto simp: ok_error_result)
  next
    case True
    define sz where "sz = (case path_getsize env p of
                        Inr file_size \<Rightarrow>
                          if file_size > yara_max_file_size env
                          then Inr (Some \<lparr>status = Some ''skipped'',
                                 message = Some (''File too large for YARA scan: ''
                                                  @ str_of_nat file_size @ '' bytes''),
                                 threats = Some []\<rparr>)
                          else Inr None
                      | Inl size_error \<Rightarrow>
                          if exn_cls size_error = OSError then Inr None else Inl size_error)"
    have body: "scan_with_yara_body env p =
       (case sz of
                  Inl e \<Rightarrow> Inl e
                | Inr (Some skipped) \<Rightarrow> Inr skipped
                | Inr None \<Rightarrow>
                   (case yara_match_file env compiled p of
                      Inl e \<Rightarrow>
                        if exn_cls e = YaraTimeoutError then Inr (error_result ''YARA scan timeout'')
                        else if exn_cls e = YaraError \<or> exn_cls e = YaraSyntaxError
                          then Inr (error_result (''YARA scan error: '' @ exn_str e))
                        else Inl e
                    | Inr matches \<Rightarrow>
                       (let found = process_matches p matches
                        in Inr \<lparr>status = Some (if found \<noteq> [] then ''infected'' else ''clean''),
                                message = Some (''YARA scan completed. Found ''
                                                 @ str_of_nat (length found) @ '' threats.''),
                                threats = Some found\<rparr>)))"
      using loop True unfolding sz_def by (simp add: scan_with_yara_body_def)
    have sz_ok: "sz = Inr (Some sk) \<Longrightarrow> engine_result_ok sk" for sk
      unfolding sz_def by (auto simp: engine_result_ok_def split: sum.splits if_splits)
    show ?thesis
    proof (cases sz)
      case (Inl e)
      with body assms show ?thesis by simp
    next
      case (Inr o1)
      show ?thesis
      proof (cases o1)
        case (Some sk)
        with Inr body assms sz_ok show ?thesis by simp
      next
        case None
        show ?thesis
        proof (cases "yara_match_file env compiled p")
          case (Inl e)
          with None Inr body assms have "\<exists>m. c = error_result m"
            by (auto split: if_splits)
          then show ?thesis by (auto simp: ok_error_result)
        next
          case (Inr matches)
          with None \<open>sz = Inr o1\<close> body assms
          have "c = \<lparr>status = Some (if process_matches p matches \<noteq> [] then ''infected'' else ''clean''),
                                message = Some (''YARA scan completed. Found ''
                                                 @ str_of_nat (length (process_matches p matches)) @ '' threats.''),
                                threats = Some (process_matches p matches)\<rparr>"
            by (simp add: Let_def)
          then show ?thesis by (simp add: engine_result_ok_def)
        qed
      qed
    qed
  qed
qed

lemma scan_with_yara_hit: "scan_with_yara yara_hit_env ''/media/eicar.com'' = Inr yara_hit_result"
  by (simp add: scan_with_yara_def scan_with_yara_body_def compile_yara_rules_def
      yara_hit_env_def eicar_env_def upt_max_retries yara_hit_result_def packed_threat_def
      is_space_def yara_threat_def tag_severity_def str_of_nat.simps digit_char_def)

lemma scan_with_clamav_hit: "scan_with_clamav yara_hit_env ''/media/eicar.com'' = Inr clean_result"
  by (simp add: scan_with_clamav_def scan_with_clamav_body_def yara_hit_env_def eicar_env_def
      upt_max_retries clean_result_def)

lemma scan_with_clamav_infected:
  assumes "scan_with_clamav env p = Inr c" and "get_threats c \<noteq> []"
  shows "status c = Some ''infected''"
proof (cases "scan_with_clamav_body env p")
  case (Inl e)
  with assms show ?thesis
    by (auto simp: scan_with_clamav_def error_result_def get_threats_def)
next
  case (Inr r)
  with assms(1) have "r = c" by (simp add: scan_with_clamav_def)
  with Inr assms(2) scan_with_clamav_body_ok show ?thesis by blast
qed

lemma db_get_loop_found:
  "d scan_id = Some r \<Longrightarrow> db_get_loop d scan_id [0..<max_db_retries] = Inr r"
  by (simp add: upt_max_db_retries)

lemma task_threat_level_infected:
  "status c = Some ''infected'' \<Longrightarrow> task_threat_level c y v = ''high''"
  by (simp add: task_threat_level_def determine_threat_level_with_virustotal_def)

lemma engine_block_infected:
  "status c = Some ''infected'' \<Longrightarrow> engine_block label (Inr c) = c"
  by (simp add: engine_block_def)

lemma scan_file_completed:
  assumes "db st scan_id = Some r" and "storage_path r = Some p"
    and "path_exists env p" and "path_readable env p"
  shows "db (fst (scan_file env retries scan_id st)) scan_id =
           Some (r\<lparr>sr_status := ''completed'',
                   threat_level := task_threat_level
                     (engine_block ''ClamAV'' (scan_with_clamav env p))
                     (engine_block ''YARA'' (scan_with_yara env p))
                     (VT_dict (virustotal_block env p))\<rparr>)"
  using assms
  by (simp add: scan_file_def scan_file_body_def db_get_loop_found Let_def save_def
      send_scan_status_update_def)

lemma scan_with_clamav_found_path:
  assumes "scan_with_clamav env p = Inr c" and "get_threats c \<noteq> []"
  shows "path_exists env p \<and> path_readable env p"
proof (rule ccontr)
  assume neg: "\<not> (path_exists env p \<and> path_readable env p)"
  have "\<exists>m. scan_with_clamav_body env p = Inr (error_result m)"
  proof (cases "clamav_connect_loop env [0..<max_retries]")
    case None
    with neg show ?thesis by (auto simp: scan_with_clamav_body_def)
  next
    case (Some r)
    then obtain m where "r = error_result m" using clamav_connect_loop_error by blast
    with Some show ?thesis by (auto simp: scan_with_clamav_body_def)
  qed
  then obtain m where "scan_with_clamav env p = Inr (error_result m)"
    by (auto simp: scan_with_clamav_def)
  with assms(1) have "c = error_result m" by simp
  with assms(2) show False by (simp add: error_result_def get_threats_def)
qed

lemma eicar_env_fields:
  "path_exists eicar_env p" "path_readable eicar_env p" "\<not> virustotal_enabled eicar_env"
  by (simp_all add: eicar_env_def)

lemma uploaded_state_db:
  "db uploaded_state scan_1 =
     Some \<lparr>sr_status = ''pending'', threat_level = ''clean'',
           storage_path = Some ''/media/eicar.com''\<rparr>"
  by (simp add: uploaded_state_def create_scan_result_def empty_state_def)

lemma scan_file_saves_running:
  assumes "db st scan_id = Some r"
  shows "Saved scan_id (r\<lparr>sr_status := ''running''\<rparr>)
           \<in> set (log (fst (scan_file env retries scan_id st)))"
proof (cases "storage_path r")
  case None
  with assms show ?thesis
    by (simp add: scan_file_def scan_file_body_def db_get_loop_found Let_def save_def
        send_scan_status_update_def)
next
  case (Some p)
  show ?thesis
  proof (cases "path_exists env p")
    case False
    with assms Some show ?thesis
      by (simp add: scan_file_def scan_file_body_def db_get_loop_found Let_def save_def
          send_scan_status_update_def fail_scan_def)
  next
    case True
    with assms Some show ?thesis
      by (cases "path_readable env p")
        (simp_all add: scan_file_def scan_file_body_def db_get_loop_found Let_def save_def
          send_scan_status_update_def fail_scan_def)
  qed
qed

lemma format_timestamp_ready:
  "formatter_ready handlers \<Longrightarrow> \<exists>ts. format_timestamp handlers = Inr ts"
  by (auto simp: formatter_ready_def format_timestamp_def split: list.splits option.splits)

lemma format_timestamp_not_ready:
  "\<not> formatter_ready handlers \<Longrightarrow> \<exists>e. format_timestamp handlers = Inl e"
  by (auto simp: formatter_ready_def format_timestamp_def split: list.splits option.splits)

lemma handler_raises_without_formatter:
  assumes "isinstance (exc_class exc) TrojanDefenderException" and "\<not> formatter_ready handlers"
  shows "\<exists>e. custom_exception_handler exc handlers drf = Inl e"
  using assms format_timestamp_not_ready [OF assms(2)]
  by (auto simp: custom_exception_handler_def)

lemma escalate_rank:
  assumes "level_rank l = Some k" and "escalate sevs l = Some l'"
  shows "\<exists>k'. level_rank l' = Some k' \<and> k < k'"
  using assms
  by (auto simp: escalate_def level_rank_def split: if_splits)

lemma scan_file_eicar_high:
  assumes "db st scan_1 = Some r" and "storage_path r = Some ''/media/eicar.com''"
  shows "db (fst (scan_file eicar_env retries scan_1 st)) scan_1 =
           Some (r\<lparr>sr_status := ''completed'', threat_level := ''high''\<rparr>)"
proof -
  have st: "status eicar_result = Some ''infected''"
    by (simp add: eicar_result_def)
  show ?thesis
    using scan_file_completed [OF assms, of eicar_env retries]
    by (simp add: eicar_env_fields scan_with_clamav_eicar engine_block_infected [OF st]
        task_threat_level_infected [OF st])
qed

lemma add_critical:
  "db (create_scan_threat critical_threat uploaded_state) scan_1 =
     Some \<lparr>sr_status = ''pending'', threat_level = ''critical'',
           storage_path = Some ''/media/eicar.com''\<rparr>"
  by (simp add: create_scan_threat_def update_scan_result_threat_level_def save_threat_level_def
      uploaded_state_def create_scan_result_def empty_state_def critical_threat_def escalate_def)

lemma scan_then_low:
  "db (create_scan_threat low_threat (fst (scan_file eicar_env 0 scan_1 uploaded_state))) scan_1 =
     Some \<lparr>sr_status = ''completed'', threat_level = ''low'',
           storage_path = Some ''/media/eicar.com''\<rparr>"
proof -
  have d: "db (fst (scan_file eicar_env 0 scan_1 uploaded_state)) scan_1 =
             Some \<lparr>sr_status = ''completed'', threat_level = ''high'',
                   storage_path = Some ''/media/eicar.com''\<rparr>"
    using scan_file_eicar_high [OF uploaded_state_db, of 0] by simp
  have t: "scan_threats (fst (scan_file eicar_env 0 scan_1 uploaded_state)) = []"
    using db_get_loop_found [of "db uploaded_state" scan_1, OF uploaded_state_db]
    by (simp add: scan_file_def scan_file_body_def Let_def save_def
        send_scan_status_update_def eicar_env_fields)
      (simp add: uploaded_state_def create_scan_result_def empty_state_def)
  show ?thesis
    by (simp add: create_scan_threat_def update_scan_result_threat_level_def
        save_threat_level_def low_threat_def uploaded_row_def d t escalate_def)
qed

lemma handler_fresh_never_lowers:
  assumes "db st scan_id = Some r" and "level_rank (threat_level r) = Some k"
    and "scan_result_id (threat_row inst) = scan_id"
    and "scan_result inst = None \<or> map_option threat_level (scan_result inst) = Some (threat_level r)"
  shows "\<exists>l' k'. level_of (create_scan_threat inst st) scan_id = Some l'
           \<and> level_rank l' = Some k' \<and> k \<le> k'"
proof -
  define st' where "st' = st\<lparr>scan_threats := scan_threats st @ [threat_row inst]\<rparr>"
  define sevs where "sevs = map threat_severity
    (filter (\<lambda>t. scan_result_id t = scan_id) (scan_threats st'))"
  obtain obj where obj: "(case scan_result inst of Some obj \<Rightarrow> Some obj | None \<Rightarrow> db st' scan_id)
      = Some obj" and lv: "threat_level obj = threat_level r"
    using assms(1,4) by (auto simp: st'_def split: option.splits)
  have c: "create_scan_threat inst st =
             (case escalate sevs (threat_level r) of
                None \<Rightarrow> st'
              | Some level \<Rightarrow> save_threat_level scan_id level st')"
    using assms(1,3) obj lv
    by (simp add: create_scan_threat_def update_scan_result_threat_level_def Let_def
        st'_def [symmetric] sevs_def)
  show ?thesis
  proof (cases "escalate sevs (threat_level r)")
    case None
    with c assms(1,2) show ?thesis by (simp add: level_of_def st'_def)
  next
    case (Some level)
    then obtain k' where "level_rank level = Some k'" "k < k'"
      using escalate_rank [OF assms(2)] by blast
    with c Some assms(1) show ?thesis
      by (simp add: level_of_def save_threat_level_def st'_def)
  qed
qed

section \<open>The level by the number of findings\<close>

text \<open>
  C1, as stated, fails: in the environment \<open>eicar_env\<close> ClamAV reports one finding, so its
  result has the status \<^verbatim>\<open>'infected'\<close>; no engine has the status \<^verbatim>\<open>'error'\<close> and the
  total number of findings is 1, yet the level is \<^verbatim>\<open>'high'\<close>, not \<^verbatim>\<open>'low'\<close>.
\<close>

theorem determine_by_count_counterexample:
  "scan_with_clamav eicar_env ''/media/eicar.com'' = Inr eicar_result
   \<and> scan_with_yara eicar_env ''/media/eicar.com'' = Inr no_rules_result
   \<and> status eicar_result \<noteq> Some ''error'' \<and> status no_rules_result \<noteq> Some ''error''
   \<and> total_findings eicar_result no_rules_result (VT_list []) = 1
   \<and> determine_threat_level_with_virustotal eicar_result no_rules_result (VT_list [])
       = Inr ''high''
   \<and> level_of_count 1 = ''low''"
  by (simp add: scan_with_clamav_eicar scan_with_yara_eicar total_findings_def get_threats_def
      no_rules_result_def eicar_result_def determine_threat_level_with_virustotal_def
      level_of_count_def)

text \<open>
  C1, amended: when no engine has the status \<^verbatim>\<open>'error'\<close>, ClamAV's status is not
  \<^verbatim>\<open>'infected'\<close> and no finding of YARA or VirusTotal has the severity \<^verbatim>\<open>'high'\<close>,
  \<^verbatim>\<open>determine_threat_level_with_virustotal\<close>, given the list of VirusTotal threats,
  returns \<^verbatim>\<open>'clean'\<close>, \<^verbatim>\<open>'low'\<close>, \<^verbatim>\<open>'medium'\<close> or \<^verbatim>\<open>'high'\<close> for 0, 1, 2 or at
  least 3 findings in total.
\<close>

theorem determine_by_count:
  assumes "status c \<noteq> Some ''error''" and "status y \<noteq> Some ''error''"
    and "status c \<noteq> Some ''infected''"
    and "\<not> list_ex is_high (get_threats y)" and "\<not> list_ex is_high vts"
  shows "determine_threat_level_with_virustotal c y (VT_list vts) =
           Inr (level_of_count (total_findings c y (VT_list vts)))"
proof -
  have y0: "filter is_high (get_threats y) = []" and v0: "filter is_high vts = []"
    using assms(4,5) by (simp_all add: list_ex_iff filter_empty_conv)
  have "determine_threat_level_with_virustotal c y (VT_list vts) =
          (if 3 \<le> total_findings c y (VT_list vts) then Inr ''high''
           else if 1 \<le> total_findings c y (VT_list vts)
             then (if 2 \<le> total_findings c y (VT_list vts) then Inr ''medium'' else Inr ''low'')
           else Inr ''clean'')"
    using assms(1,2,3,5)
    by (simp add: determine_threat_level_with_virustotal_def total_findings_def Let_def y0 v0)
  then show ?thesis
    by (simp only: level_of_count_cases)
qed

theorem determine_by_count_witness:
  "status clean_result \<noteq> Some ''error'' \<and> status yara_hit_result \<noteq> Some ''error''
   \<and> status clean_result \<noteq> Some ''infected''
   \<and> \<not> list_ex is_high (get_threats yara_hit_result) \<and> \<not> list_ex is_high []
   \<and> total_findings clean_result yara_hit_result (VT_list []) = 1
   \<and> determine_threat_level_with_virustotal clean_result yara_hit_result (VT_list [])
       = Inr ''low''"
proof -
  have h: "status clean_result \<noteq> Some ''error''" "status yara_hit_result \<noteq> Some ''error''"
    "status clean_result \<noteq> Some ''infected''"
    "\<not> list_ex is_high (get_threats yara_hit_result)" "\<not> list_ex is_high []"
    by (simp_all add: clean_result_def yara_hit_result_def get_threats_def is_high_def
        packed_threat_def)
  have n: "total_findings clean_result yara_hit_result (VT_list []) = 1"
    by (simp add: total_findings_def get_threats_def clean_result_def yara_hit_result_def)
  show ?thesis
    using h n determine_by_count [OF h] by (simp add: level_of_count_def)
qed

section \<open>Scanning without rules\<close>

text \<open>
  C7: when the table of YARA rules has no active rule, \<^verbatim>\<open>compile_yara_rules\<close> yields
  \<^verbatim>\<open>None\<close> at every attempt (whatever the database does), and \<^verbatim>\<open>scan_with_yara\<close>
  returns the status \<^verbatim>\<open>'clean'\<close> with the message
  \<^verbatim>\<open>'No YARA rules available for scanning'\<close> and no threats; it is not an error.
\<close>

theorem no_active_rules_clean:
  assumes "filter is_active (yara_rule_table env) = []"
  shows "scan_with_yara env file_path =
           Inr \<lparr>status = Some ''clean'',
                message = Some ''No YARA rules available for scanning'',
                threats = Some []\<rparr>"
  using assms
  by (simp add: scan_with_yara_def scan_with_yara_body_def yara_compile_loop_no_active)

theorem no_active_rules_clean_witness:
  "filter is_active (yara_rule_table eicar_env) = []
   \<and> scan_with_yara eicar_env ''/media/eicar.com'' = Inr no_rules_result"
proof -
  have h: "filter is_active (yara_rule_table eicar_env) = []"
    by (simp add: eicar_env_def)
  show ?thesis
    using h no_active_rules_clean [OF h, of "''/media/eicar.com''"]
    by (simp add: no_rules_result_def)
qed

section \<open>The engines never raise\<close>

text \<open>
  C10: whatever the environment does (daemon unreachable, file missing or unreadable,
  database or compilation failure, timeout of the scan, any other exception of a call
  made inside), \<^verbatim>\<open>scan_with_clamav\<close> and \<^verbatim>\<open>scan_with_yara\<close> return a dictionary,
  never an exception; the dictionary has the keys \<^verbatim>\<open>status\<close>, \<^verbatim>\<open>message\<close> and
  \<^verbatim>\<open>threats\<close>, and its list of threats is empty when the status is \<^verbatim>\<open>'error'\<close>,
  \<^verbatim>\<open>'clean'\<close> or \<^verbatim>\<open>'skipped'\<close>. The exceptions of the model are instances of
  \<^verbatim>\<open>Exception\<close>, which is what the handlers catch.
\<close>

theorem engines_never_raise:
  "(\<exists>r. scan_with_clamav env file_path = Inr r \<and> engine_result_ok r)
   \<and> (\<exists>r. scan_with_yara env file_path = Inr r \<and> engine_result_ok r)"
proof
  show "\<exists>r. scan_with_clamav env file_path = Inr r \<and> engine_result_ok r"
  proof (cases "scan_with_clamav_body env file_path")
    case (Inl e)
    then show ?thesis by (simp add: scan_with_clamav_def ok_error_result)
  next
    case (Inr c)
    then show ?thesis using scan_with_clamav_body_ok [OF Inr] by (simp add: scan_with_clamav_def)
  qed
  show "\<exists>r. scan_with_yara env file_path = Inr r \<and> engine_result_ok r"
  proof (cases "scan_with_yara_body env file_path")
    case (Inl e)
    then show ?thesis by (simp add: scan_with_yara_def ok_error_result)
  next
    case (Inr c)
    then show ?thesis using scan_with_yara_body_ok [OF Inr] by (simp add: scan_with_yara_def)
  qed
qed

theorem engines_never_raise_witness:
  "scan_with_clamav down_env ''/media/eicar.com'' =
     Inr (error_result ''ClamAV daemon not available after 3 attempts: Connection refused'')
   \<and> status (error_result ''ClamAV daemon not available after 3 attempts: Connection refused'')
       \<in> set [Some ''error'', Some ''clean'', Some ''skipped'']
   \<and> threats (error_result ''ClamAV daemon not available after 3 attempts: Connection refused'')
       = Some []"
  using engines_never_raise [of down_env "''/media/eicar.com''"]
  by (simp add: scan_with_clamav_down) (simp add: engine_result_ok_def error_result_def)

section \<open>One finding of ClamAV\<close>

text \<open>
  C3, as stated, fails: the uploaded file is scanned in \<open>eicar_env\<close>, where ClamAV reports
  exactly one finding, YARA has no rules and VirusTotal is disabled; the level stored for
  the scan is \<^verbatim>\<open>'high'\<close>, not \<^verbatim>\<open>'low'\<close>.
\<close>

theorem one_clamav_finding_counterexample:
  "scan_with_clamav eicar_env ''/media/eicar.com'' = Inr eicar_result
   \<and> length (get_threats eicar_result) = 1
   \<and> scan_with_yara eicar_env ''/media/eicar.com'' = Inr no_rules_result
   \<and> get_threats no_rules_result = []
   \<and> \<not> virustotal_enabled eicar_env
   \<and> level_of (fst (scan_file eicar_env 0 scan_1 uploaded_state)) scan_1 = Some ''high''"
proof -
  have st: "status eicar_result = Some ''infected''"
    by (simp add: eicar_result_def)
  have "db (fst (scan_file eicar_env 0 scan_1 uploaded_state)) scan_1 =
          Some \<lparr>sr_status = ''completed'', threat_level = ''high'',
                storage_path = Some ''/media/eicar.com''\<rparr>"
    using scan_file_completed [OF uploaded_state_db, of "''/media/eicar.com''" eicar_env 0]
    by (simp add: eicar_env_fields scan_with_clamav_eicar engine_block_infected [OF st]
        task_threat_level_infected [OF st])
  then show ?thesis
    by (simp add: level_of_def scan_with_clamav_eicar scan_with_yara_eicar eicar_env_fields)
      (simp add: eicar_result_def no_rules_result_def get_threats_def)
qed

text \<open>
  C3, amended: when \<^verbatim>\<open>scan_with_clamav\<close> reports exactly one finding, its status is
  \<^verbatim>\<open>'infected'\<close> and \<^verbatim>\<open>determine_threat_level_with_virustotal\<close> returns
  \<^verbatim>\<open>'high'\<close>, whatever the other engines report; \<^verbatim>\<open>scan_file\<close> stores
  \<^verbatim>\<open>'high'\<close> as the threat level of the scan.
\<close>

theorem one_clamav_finding_high:
  assumes "scan_with_clamav env p = Inr c" and "length (get_threats c) = 1"
  shows "determine_threat_level_with_virustotal c y v = Inr ''high''
         \<and> (db st scan_id = Some r \<and> storage_path r = Some p \<longrightarrow>
              level_of (fst (scan_file env retries scan_id st)) scan_id = Some ''high'')"
proof -
  from assms(2) have ne: "get_threats c \<noteq> []" by auto
  have inf: "status c = Some ''infected''"
    using scan_with_clamav_infected [OF assms(1) ne] .
  have paths: "path_exists env p" "path_readable env p"
    using scan_with_clamav_found_path [OF assms(1) ne] by simp_all
  have a: "determine_threat_level_with_virustotal c y v = Inr ''high''"
    using inf by (simp add: determine_threat_level_with_virustotal_def)
  have b: "level_of (fst (scan_file env retries scan_id st)) scan_id = Some ''high''"
    if "db st scan_id = Some r" and "storage_path r = Some p"
    using scan_file_completed [OF that paths, of retries]
    by (simp add: level_of_def assms(1) engine_block_infected [OF inf]
        task_threat_level_infected [OF inf])
  from a b show ?thesis by blast
qed

theorem one_clamav_finding_high_witness:
  "scan_with_clamav eicar_env ''/media/eicar.com'' = Inr eicar_result
   \<and> length (get_threats eicar_result) = 1
   \<and> db uploaded_state scan_1 =
        Some \<lparr>sr_status = ''pending'', threat_level = ''clean'',
              storage_path = Some ''/media/eicar.com''\<rparr>
   \<and> determine_threat_level_with_virustotal eicar_result no_rules_result (VT_dict skipped_result)
        = Inr ''high''
   \<and> level_of (fst (scan_file eicar_env 1 scan_1 uploaded_state)) scan_1 = Some ''high''"
proof -
  have n: "length (get_threats eicar_result) = 1"
    by (simp add: eicar_result_def get_threats_def)
  show ?thesis
    using n uploaded_state_db
      one_clamav_finding_high [OF scan_with_clamav_eicar n, where y = no_rules_result
        and v = "VT_dict skipped_result" and st = uploaded_state and scan_id = "scan_1"
        and r = "\<lparr>sr_status = ''pending'', threat_level = ''clean'',
                  storage_path = Some ''/media/eicar.com''\<rparr>"
        and retries = 1]
    by (simp add: scan_with_clamav_eicar)
qed

section \<open>An infected engine\<close>

text \<open>
  C4, as stated, fails: in \<open>yara_hit_env\<close> ClamAV finds nothing and one YARA rule without
  tags matches, so the YARA result has the status \<^verbatim>\<open>'infected'\<close> with one finding of
  severity \<^verbatim>\<open>'medium'\<close>. \<^verbatim>\<open>determine_threat_level_with_virustotal\<close> returns
  \<^verbatim>\<open>'low'\<close> and \<^verbatim>\<open>determine_threat_level\<close> returns \<^verbatim>\<open>'clean'\<close>.
\<close>

theorem infected_high_counterexample:
  "scan_with_clamav yara_hit_env ''/media/eicar.com'' = Inr clean_result
   \<and> scan_with_yara yara_hit_env ''/media/eicar.com'' = Inr yara_hit_result
   \<and> status yara_hit_result = Some ''infected''
   \<and> determine_threat_level_with_virustotal clean_result yara_hit_result (VT_list []) = Inr ''low''
   \<and> determine_threat_level clean_result yara_hit_result = ''clean''"
  by (simp add: scan_with_clamav_hit scan_with_yara_hit)
    (simp add: yara_hit_result_def clean_result_def determine_threat_level_with_virustotal_def
      determine_threat_level_def get_threats_def is_high_def packed_threat_def)

text \<open>
  C4, amended: if the result of ClamAV has the status \<^verbatim>\<open>'infected'\<close>, both functions
  return \<^verbatim>\<open>'high'\<close>. \<^verbatim>\<open>determine_threat_level_with_virustotal\<close>, given the list of
  VirusTotal threats, returns \<^verbatim>\<open>'high'\<close> if one of these threats has the severity
  \<^verbatim>\<open>'high'\<close>, and also if the result of YARA has the status \<^verbatim>\<open>'infected'\<close> and one
  of its findings has the severity \<^verbatim>\<open>'high'\<close>.
\<close>

theorem infected_high:
  "(status c = Some ''infected'' \<longrightarrow>
      determine_threat_level_with_virustotal c y v = Inr ''high''
      \<and> determine_threat_level c y = ''high'')
   \<and> (list_ex is_high vts \<longrightarrow>
      determine_threat_level_with_virustotal c y (VT_list vts) = Inr ''high'')
   \<and> (status y = Some ''infected'' \<and> list_ex is_high (get_threats y) \<longrightarrow>
      determine_threat_level_with_virustotal c y (VT_list vts) = Inr ''high'')"
proof (intro conjI impI)
  assume "status c = Some ''infected''"
  then show "determine_threat_level_with_virustotal c y v = Inr ''high''"
    by (simp add: determine_threat_level_with_virustotal_def)
next
  assume "status c = Some ''infected''"
  then show "determine_threat_level c y = ''high''"
    by (simp add: determine_threat_level_def)
next
  assume high: "list_ex is_high vts"
  then have "vts \<noteq> []" by auto
  with high show "determine_threat_level_with_virustotal c y (VT_list vts) = Inr ''high''"
    by (simp add: determine_threat_level_with_virustotal_def)
next
  assume y: "status y = Some ''infected'' \<and> list_ex is_high (get_threats y)"
  then have ne: "filter is_high (get_threats y) \<noteq> []"
    by (auto simp: list_ex_iff filter_empty_conv)
  then have ne': "get_threats y \<noteq> []" by auto
  from ne' have l2: "Suc 0 \<le> length (get_threats c) + length (get_threats y) + length vts"
    by (simp add: Suc_le_eq)
  from y show "determine_threat_level_with_virustotal c y (VT_list vts) = Inr ''high''"
    by (cases "list_ex is_high vts")
      (simp_all add: determine_threat_level_with_virustotal_def Let_def ne l2)
qed

theorem infected_high_witness:
  "status eicar_result = Some ''infected''
   \<and> determine_threat_level_with_virustotal eicar_result yara_hit_result (VT_list []) = Inr ''high''
   \<and> determine_threat_level eicar_result yara_hit_result = ''high''
   \<and> list_ex is_high [clamav_threat ''sha256'' ''Trojan.Generic'']
   \<and> determine_threat_level_with_virustotal clean_result no_rules_result
        (VT_list [clamav_threat ''sha256'' ''Trojan.Generic'']) = Inr ''high''
   \<and> status yara_high_result = Some ''infected''
   \<and> list_ex is_high (get_threats yara_high_result)
   \<and> determine_threat_level_with_virustotal clean_result yara_high_result (VT_list [])
        = Inr ''high''"
proof -
  have a: "status eicar_result = Some ''infected''"
    by (simp add: eicar_result_def)
  have b: "list_ex is_high [clamav_threat ''sha256'' ''Trojan.Generic'']"
    by (simp add: is_high_def clamav_threat_def)
  have c: "status yara_high_result = Some ''infected''"
    "list_ex is_high (get_threats yara_high_result)"
    by (simp_all add: yara_high_result_def get_threats_def is_high_def)
  show ?thesis
    using a b c
      infected_high [of eicar_result yara_hit_result "VT_list []"
        "[clamav_threat ''sha256'' ''Trojan.Generic'']"]
      infected_high [of clean_result no_rules_result "VT_list []"
        "[clamav_threat ''sha256'' ''Trojan.Generic'']"]
      infected_high [of clean_result yara_high_result "VT_list []" "[]"]
    by simp
qed

section \<open>All engines in error\<close>

text \<open>
  C5: when ClamAV and YARA both have the status \<^verbatim>\<open>'error'\<close> and there is no finding
  at all, \<^verbatim>\<open>determine_threat_level\<close> returns \<^verbatim>\<open>'unknown'\<close>, and so does
  \<^verbatim>\<open>determine_threat_level_with_virustotal\<close> on the (empty) list of VirusTotal
  threats, which is what the VirusTotal engine returns when it fails. The level
  \<^verbatim>\<open>scan_file\<close> stores is \<^verbatim>\<open>'unknown'\<close> as well, also when it passes the error
  dictionary of the VirusTotal block.
\<close>

theorem all_error_unknown:
  assumes "status c = Some ''error''" and "status y = Some ''error''"
    and "total_findings c y v = 0"
  shows "task_threat_level c y v = ''unknown''
         \<and> determine_threat_level c y = ''unknown''
         \<and> (\<forall>vts. v = VT_list vts \<longrightarrow>
               determine_threat_level_with_virustotal c y v = Inr ''unknown'')"
  using assms
  by (cases v)
    (auto simp: task_threat_level_def determine_threat_level_with_virustotal_def
      determine_threat_level_def total_findings_def Let_def split: sum.splits)

theorem all_error_unknown_witness:
  "status (error_result ''ClamAV daemon not available'') = Some ''error''
   \<and> status (error_result ''YARA scan timeout'') = Some ''error''
   \<and> total_findings (error_result ''ClamAV daemon not available'')
        (error_result ''YARA scan timeout'') (VT_list []) = 0
   \<and> determine_threat_level_with_virustotal (error_result ''ClamAV daemon not available'')
        (error_result ''YARA scan timeout'') (VT_list []) = Inr ''unknown''
   \<and> determine_threat_level (error_result ''ClamAV daemon not available'')
        (error_result ''YARA scan timeout'') = ''unknown''"
proof -
  have h: "status (error_result ''ClamAV daemon not available'') = Some ''error''"
    "status (error_result ''YARA scan timeout'') = Some ''error''"
    "total_findings (error_result ''ClamAV daemon not available'')
        (error_result ''YARA scan timeout'') (VT_list []) = 0"
    by (simp_all add: error_result_def total_findings_def get_threats_def)
  show ?thesis
    using h all_error_unknown [OF h] by simp
qed

section \<open>A scan whose file is missing\<close>

text \<open>
  C6: when the row of the scan exists and its \<^verbatim>\<open>storage_path\<close> does not exist on
  disk, \<^verbatim>\<open>scan_file\<close> returns normally; the object has the status \<^verbatim>\<open>'failed'\<close>
  and the error message \<^verbatim>\<open>File not found: <path>\<close>, the row is saved with the status
  \<^verbatim>\<open>'failed'\<close>, the failure is published with the message, and the task calls no
  engine: it adds two saves and two status updates to the log and nothing else.
  (\<^verbatim>\<open>error_message\<close> is an attribute of the object and no column of the model, so it
  reaches the client through the status update, not through the row.)
\<close>

theorem missing_file_fails:
  assumes "db st scan_id = Some r" and "storage_path r = Some p"
    and "\<not> path_exists env p"
  shows "snd (scan_file env retries scan_id st) =
           (Some \<lparr>row = r\<lparr>sr_status := ''failed''\<rparr>,
                  error_message = Some (''File not found: '' @ p),
                  threats_found = None\<rparr>, Returned)
         \<and> db (fst (scan_file env retries scan_id st)) scan_id = Some (r\<lparr>sr_status := ''failed''\<rparr>)
         \<and> log (fst (scan_file env retries scan_id st)) =
             log st @ [Saved scan_id (r\<lparr>sr_status := ''running''\<rparr>),
                       StatusUpdate scan_id ''running'' ''Scan in progress...'',
                       Saved scan_id (r\<lparr>sr_status := ''failed''\<rparr>),
                       StatusUpdate scan_id ''failed'' (''File not found: '' @ p)]
         \<and> filter is_engine_call (log (fst (scan_file env retries scan_id st)))
             = filter is_engine_call (log st)"
  using assms
  by (simp add: scan_file_def scan_file_body_def db_get_loop_found Let_def save_def
      send_scan_status_update_def fail_scan_def)

theorem missing_file_fails_witness:
  "db uploaded_state scan_1 =
     Some \<lparr>sr_status = ''pending'', threat_level = ''clean'',
           storage_path = Some ''/media/eicar.com''\<rparr>
   \<and> \<not> path_exists missing_env ''/media/eicar.com''
   \<and> snd (scan_file missing_env 0 scan_1 uploaded_state) =
        (Some \<lparr>row = \<lparr>sr_status = ''failed'', threat_level = ''clean'',
                       storage_path = Some ''/media/eicar.com''\<rparr>,
               error_message = Some ''File not found: /media/eicar.com'',
               threats_found = None\<rparr>, Returned)
   \<and> filter is_engine_call (log (fst (scan_file missing_env 0 scan_1 uploaded_state))) = []"
proof -
  have h: "\<not> path_exists missing_env ''/media/eicar.com''"
    by (simp add: missing_env_def)
  have l: "log uploaded_state = []"
    by (simp add: uploaded_state_def create_scan_result_def empty_state_def)
  show ?thesis
    using h l uploaded_state_db
      missing_file_fails [OF uploaded_state_db _ h, of 0]
    by simp
qed

section \<open>The status of a scan\<close>

text \<open>
  C8 does not hold of the code: the first thing \<^verbatim>\<open>scan_file\<close> does with a row it
  found is to set its status to \<^verbatim>\<open>'running'\<close> and save it, and \<^verbatim>\<open>'running'\<close> is
  none of the four choices of \<^verbatim>\<open>ScanStatus\<close> (the choice for a scan in progress is
  \<^verbatim>\<open>'scanning'\<close>). Here for the uploaded file in \<open>eicar_env\<close>; the lemma
  \<open>scan_file_saves_running\<close> shows it for every run that finds its row.
\<close>

theorem running_status_saved:
  "db uploaded_state scan_1 =
     Some \<lparr>sr_status = ''pending'', threat_level = ''clean'',
           storage_path = Some ''/media/eicar.com''\<rparr>
   \<and> Saved scan_1 \<lparr>sr_status = ''running'', threat_level = ''clean'',
                        storage_path = Some ''/media/eicar.com''\<rparr>
        \<in> set (log (fst (scan_file eicar_env 0 scan_1 uploaded_state)))
   \<and> ''running'' \<notin> set ScanStatus_choices"
  using scan_file_saves_running [OF uploaded_state_db, of eicar_env 0]
  by (simp add: uploaded_state_db ScanStatus_choices_def)

section \<open>Escalation of the threat level\<close>

text \<open>
  C2 does not hold of the code, in two ways. The signal handler guards every assignment
  so as never to lower the level, but it compares with the level of the Python object
  attached to the new threat and saves what it assigned to that object: after the scan
  task has stored \<^verbatim>\<open>'high'\<close>, a threat of severity \<^verbatim>\<open>'low'\<close> created with the object
  the upload view holds (level \<^verbatim>\<open>'clean'\<close>) makes the handler store \<^verbatim>\<open>'low'\<close>. And
  \<^verbatim>\<open>scan_file\<close> assigns the level it determined without looking at the current one:
  after a threat of severity \<^verbatim>\<open>'critical'\<close> has raised the level to
  \<^verbatim>\<open>'critical'\<close>, the completion of the scan in \<open>eicar_env\<close> stores \<^verbatim>\<open>'high'\<close>.
  With an object that carries the stored level the handler never lowers it (lemma
  \<open>handler_fresh_never_lowers\<close>).
\<close>

theorem threat_level_lowered:
  "level_of (run_ops [AddThreat critical_threat] uploaded_state) scan_1 = Some ''critical''
   \<and> level_of (run_ops [AddThreat critical_threat, RunScan eicar_env 0 scan_1] uploaded_state)
        scan_1 = Some ''high''
   \<and> level_of (run_ops [RunScan eicar_env 0 scan_1] uploaded_state) scan_1 = Some ''high''
   \<and> level_of (run_ops [RunScan eicar_env 0 scan_1, AddThreat low_threat] uploaded_state)
        scan_1 = Some ''low''
   \<and> level_rank ''critical'' = Some 4 \<and> level_rank ''high'' = Some 3
   \<and> level_rank ''low'' = Some 1"
  using scan_file_eicar_high [OF add_critical, of 0]
    scan_file_eicar_high [OF uploaded_state_db, of 0]
  by (simp add: level_of_def add_critical scan_then_low level_rank_def)

section \<open>Responses to application exceptions\<close>

text \<open>
  C9, as stated, fails: \<^verbatim>\<open>FileUploadException\<close> is a
  \<^verbatim>\<open>TrojanDefenderException\<close> and none of the four classes the claim names, and
  the handler (here with a logger that has no handler) answers it with 413, not 500.
\<close>

theorem application_exception_response_counterexample:
  "isinstance FileUploadException TrojanDefenderException
   \<and> FileUploadException \<notin> set [ValidationException, AuthenticationException,
                                  RateLimitException, ExternalAPIException]
   \<and> custom_exception_handler
        (init_exception FileUploadException ''File too large'' None JNull) [] None
       = Inr (Some \<lparr>status_code = 413,
                    data = JObject [(''error'', JObject [(''message'', JString ''File too large''),
                              (''code'', JString ''UNKNOWN_ERROR''), (''details'', JObject []),
                              (''timestamp'', JNull)])]\<rparr>)"
  by (simp add: custom_exception_handler_def init_exception_def isinstance_def
      application_classes_def format_timestamp_def error_body_def falsy_def json_of_option_def)

text \<open>
  C9, amended: for every raised \<^verbatim>\<open>TrojanDefenderException\<close>, when the logger of the
  module has no handler or its first handler has a formatter, the exception handler
  returns a response whose body is \<^verbatim>\<open>{error: {message, code, details, timestamp}}\<close>
  and whose status is 400 for \<^verbatim>\<open>ValidationException\<close>, 401 for
  \<^verbatim>\<open>AuthenticationException\<close>, 429 for \<^verbatim>\<open>RateLimitException\<close>, 413 for
  \<^verbatim>\<open>FileUploadException\<close>, 502 for \<^verbatim>\<open>ExternalAPIException\<close> and 500 for any
  other \<^verbatim>\<open>TrojanDefenderException\<close>. (When the first handler has no formatter, building
  the body raises AttributeError: lemma \<open>handler_raises_without_formatter\<close>.)
\<close>

theorem application_exception_response:
  assumes "isinstance (exc_class exc) TrojanDefenderException"
    and "formatter_ready handlers"
  shows "\<exists>resp. custom_exception_handler exc handlers drf = Inr (Some resp)
           \<and> error_keys (data resp) = Some [''message'', ''code'', ''details'', ''timestamp'']
           \<and> status_code resp =
                (if exc_class exc = ValidationException then 400
                 else if exc_class exc = AuthenticationException then 401
                 else if exc_class exc = RateLimitException then 429
                 else if exc_class exc = FileUploadException then 413
                 else if exc_class exc = ExternalAPIException then 502
                 else 500)"
proof -
  obtain ts where ts: "format_timestamp handlers = Inr ts"
    using format_timestamp_ready [OF assms(2)] by blast
  show ?thesis
    using assms(1)
    by (cases "exc_class exc")
      (simp_all add: custom_exception_handler_def ts isinstance_def application_classes_def
        error_body_def)
qed

theorem application_exception_response_witness:
  "isinstance (exc_class (init_exception ScannerException ''Scan failed'' (Some ''SCAN_ERROR'') JNull))
     TrojanDefenderException
   \<and> formatter_ready [Some ''2026-01-01 00:00:00,000'']
   \<and> custom_exception_handler
        (init_exception ScannerException ''Scan failed'' (Some ''SCAN_ERROR'') JNull)
        [Some ''2026-01-01 00:00:00,000''] None
      = Inr (Some \<lparr>status_code = 500,
              data = JObject [(''error'', JObject [(''message'', JString ''Scan failed''),
                        (''code'', JString ''SCAN_ERROR''), (''details'', JObject []),
                        (''timestamp'', JString ''2026-01-01 00:00:00,000'')])]\<rparr>)"
proof -
  have h: "isinstance (exc_class (init_exception ScannerException ''Scan failed''
             (Some ''SCAN_ERROR'') JNull)) TrojanDefenderException"
    "formatter_ready [Some ''2026-01-01 00:00:00,000'']"
    by (simp_all add: init_exception_def isinstance_def application_classes_def
        formatter_ready_def)
  show ?thesis
    using h application_exception_response [OF h, of None]
    by (simp add: custom_exception_handler_def init_exception_def isinstance_def
        application_classes_def error_body_def falsy_def json_of_option_def
        format_timestamp_def)
qed

end
